theory Spec2Isabelle
  imports Complex_Main
begin

section \<open>JavaScript values\<close>

text \<open>
  A JavaScript number is a double. \<open>Fin r\<close> stands for the double nearest to the rational
  \<open>r\<close>: it is \<open>r\<close> itself when \<open>r\<close> is an integer of magnitude at most \<open>2^53\<close>, and the
  correctly rounded value otherwise. \<open>Untracked\<close> stands for a number that this model does
  not determine; an operation answers \<open>Untracked\<close> wherever the rounding of doubles or the
  sign of a zero would decide the result. The sign of zero is not kept.
\<close>

datatype jsnum = NaN | PosInf | NegInf | Fin rat | Untracked

text \<open>
  The values a parsed JSON body or the code itself can hold. A date is the number of
  milliseconds since the epoch, \<open>JDate None\<close> is JavaScript's Invalid Date.
\<close>

datatype jsval =
    JUndefined
  | JNull
  | JBool bool
  | JNum jsnum
  | JStr string
  | JDate "int option"
  | JObj "(string \<times> jsval) list"
  | JArr "jsval list"

text \<open>The rationals whose nearest double is zero.\<close>

definition rounds_to_zero :: "rat \<Rightarrow> bool" where
  "rounds_to_zero r = (\<bar>r\<bar> * 2 ^ 1075 \<le> 1)"

text \<open>Truthiness; of a number that is not determined nothing is known, it counts as truthy.\<close>

fun truthy :: "jsval \<Rightarrow> bool" where
  "truthy JUndefined = False"
| "truthy JNull = False"
| "truthy (JBool b) = b"
| "truthy (JNum NaN) = False"
| "truthy (JNum (Fin r)) = (\<not> rounds_to_zero r)"
| "truthy (JNum n) = True"
| "truthy (JStr s) = (s \<noteq> [])"
| "truthy (JDate d) = True"
| "truthy (JObj kvs) = True"
| "truthy (JArr vs) = True"

text \<open>\<open>a || b\<close>\<close>

definition js_or :: "jsval \<Rightarrow> jsval \<Rightarrow> jsval" where
  "js_or a b = (if truthy a then a else b)"

text \<open>Reading a property of a parsed object: a missing key reads as \<open>undefined\<close>.\<close>

definition field_of :: "(string \<times> jsval) list \<Rightarrow> string \<Rightarrow> jsval" where
  "field_of obj k = (case map_of obj k of None \<Rightarrow> JUndefined | Some v \<Rightarrow> v)"

text \<open>
  \<open>Number(x)\<close> for a query or path parameter. The reading of a string is the parameter
  \<open>N\<close> of every handler that calls it (\<open>js_Number\<close> below is the language's);
  \<open>Number(undefined)\<close> is NaN.
\<close>

definition Number_of :: "(string \<Rightarrow> jsnum) \<Rightarrow> string option \<Rightarrow> jsnum" where
  "Number_of N p = (case p of None \<Rightarrow> NaN | Some s \<Rightarrow> N s)"

text \<open>
  Arithmetic. An integer of magnitude at most \<open>2^53\<close> is a double, and a sum, difference,
  product or quotient of two doubles is the double nearest to the exact result; so on such
  operands \<open>Fin\<close> of the exact result is the answer. On other finite operands the answer is
  not determined here.
\<close>

definition safe :: "rat \<Rightarrow> bool" where
  "safe r = (of_int \<lfloor>r\<rfloor> = r \<and> \<bar>r\<bar> \<le> 9007199254740992)"

fun js_sub :: "jsnum \<Rightarrow> jsnum \<Rightarrow> jsnum" where
  "js_sub NaN b = NaN"
| "js_sub a NaN = NaN"
| "js_sub Untracked b = Untracked"
| "js_sub a Untracked = Untracked"
| "js_sub (Fin x) (Fin y) = (if safe x \<and> safe y then Fin (x - y) else Untracked)"
| "js_sub PosInf PosInf = NaN"
| "js_sub NegInf NegInf = NaN"
| "js_sub PosInf b = PosInf"
| "js_sub NegInf b = NegInf"
| "js_sub (Fin x) PosInf = NegInf"
| "js_sub (Fin x) NegInf = PosInf"

fun js_mul :: "jsnum \<Rightarrow> jsnum \<Rightarrow> jsnum" where
  "js_mul NaN b = NaN"
| "js_mul a NaN = NaN"
| "js_mul Untracked b = Untracked"
| "js_mul a Untracked = Untracked"
| "js_mul (Fin x) (Fin y) = (if safe x \<and> safe y then Fin (x * y) else Untracked)"
| "js_mul PosInf (Fin y) =
     (if y = 0 then NaN else if \<not> safe y then Untracked else if 0 < y then PosInf else NegInf)"
| "js_mul NegInf (Fin y) =
     (if y = 0 then NaN else if \<not> safe y then Untracked else if 0 < y then NegInf else PosInf)"
| "js_mul (Fin x) PosInf =
     (if x = 0 then NaN else if \<not> safe x then Untracked else if 0 < x then PosInf else NegInf)"
| "js_mul (Fin x) NegInf =
     (if x = 0 then NaN else if \<not> safe x then Untracked else if 0 < x then NegInf else PosInf)"
| "js_mul PosInf PosInf = PosInf"
| "js_mul PosInf NegInf = NegInf"
| "js_mul NegInf PosInf = NegInf"
| "js_mul NegInf NegInf = PosInf"

text \<open>A division by zero gives an infinity whose sign is that of the zero: not determined.\<close>

fun js_div :: "jsnum \<Rightarrow> jsnum \<Rightarrow> jsnum" where
  "js_div NaN b = NaN"
| "js_div a NaN = NaN"
| "js_div Untracked b = Untracked"
| "js_div a Untracked = Untracked"
| "js_div (Fin x) (Fin y) =
     (if safe x \<and> safe y \<and> y \<noteq> 0 then Fin (x / y)
      else if x = 0 \<and> y = 0 then NaN
      else Untracked)"
| "js_div (Fin x) b = Fin 0"
| "js_div PosInf (Fin y) =
     (if safe y \<and> 0 < y then PosInf else if safe y \<and> y < 0 then NegInf else Untracked)"
| "js_div NegInf (Fin y) =
     (if safe y \<and> 0 < y then NegInf else if safe y \<and> y < 0 then PosInf else Untracked)"
| "js_div a b = NaN"

text \<open>
  \<open>Math.ceil\<close>. Take a fraction \<open>a / b\<close> in lowest terms with \<open>|a| < 2^53\<close> and
  \<open>b \<le> 2^53\<close>. The integers next to it are doubles, so its nearest double lies between
  them; and rounding moves it by less than \<open>2^-53 * |a / b| < 1 / b\<close>, which is the least
  distance such a fraction can have from an integer it is not equal to. So the nearest double
  is an integer only if the fraction is, and its ceiling is the ceiling of the fraction.
\<close>

definition small_fraction :: "rat \<Rightarrow> bool" where
  "small_fraction r =
     (\<bar>fst (quotient_of r)\<bar> < 9007199254740992 \<and> snd (quotient_of r) \<le> 9007199254740992)"

fun js_ceil :: "jsnum \<Rightarrow> jsnum" where
  "js_ceil (Fin x) = (if small_fraction x then Fin (of_int \<lceil>x\<rceil>) else Untracked)"
| "js_ceil a = a"

text \<open>
  \<open>Number(p)\<close> for a query parameter destructured with a numeric default \<open>d\<close>: the default
  stands in only when the parameter is absent.
\<close>

definition num_param :: "(string \<Rightarrow> jsnum) \<Rightarrow> rat \<Rightarrow> string option \<Rightarrow> jsnum" where
  "num_param N d p = (case p of None \<Rightarrow> Fin d | Some s \<Rightarrow> N s)"

text \<open>A string parameter destructured with a default.\<close>

definition str_param :: "string \<Rightarrow> string option \<Rightarrow> string" where
  "str_param d p = (case p of None \<Rightarrow> d | Some s \<Rightarrow> s)"

text \<open>\<open>s.split(c)\<close> for a separator of one character.\<close>

fun split_on :: "char \<Rightarrow> string \<Rightarrow> string list" where
  "split_on c [] = [[]]"
| "split_on c (x # xs) =
     (if x = c then [] # split_on c xs
      else (case split_on c xs of [] \<Rightarrow> [[x]] | w # ws \<Rightarrow> (x # w) # ws))"

subsection \<open>The language's reading of a string as a number\<close>

text \<open>
  \<open>Number(s)\<close> on a string, after the language's grammar of numeric string literals. A
  string is its UTF-8 bytes. White space and line terminators around the literal are
  dropped; what is left is empty (zero), a hexadecimal, octal or binary integer with its
  prefix and without sign, \<open>Infinity\<close> with an optional sign, or a decimal literal with
  optional sign, fraction and exponent; anything else is NaN. The value is the double
  nearest to the literal, an infinity beyond the range of doubles.
\<close>

fun all_ws :: "nat list \<Rightarrow> bool" where
  "all_ws [] = True"
| "all_ws (c # cs) =
     (if c \<in> {9, 10, 11, 12, 13, 32} then all_ws cs
      else (case cs of
              [] \<Rightarrow> False
            | d # ds \<Rightarrow>
                if c = 194 \<and> d = 160 then all_ws ds
                else (case ds of
                        [] \<Rightarrow> False
                      | e # es \<Rightarrow>
                          if (c = 225 \<and> d = 154 \<and> e = 128) \<or>
                             (c = 226 \<and> d = 128 \<and> (e \<in> {128..138} \<or> e \<in> {168, 169, 175})) \<or>
                             (c = 226 \<and> d = 129 \<and> e = 159) \<or>
                             (c = 227 \<and> d = 128 \<and> e = 128) \<or>
                             (c = 239 \<and> d = 187 \<and> e = 191)
                          then all_ws es else False)))"

fun trim_start :: "nat list \<Rightarrow> nat list" where
  "trim_start [] = []"
| "trim_start (c # cs) =
     (if c \<in> {9, 10, 11, 12, 13, 32} then trim_start cs
      else (case cs of
              [] \<Rightarrow> [c]
            | d # ds \<Rightarrow>
                if c = 194 \<and> d = 160 then trim_start ds
                else (case ds of
                        [] \<Rightarrow> [c, d]
                      | e # es \<Rightarrow>
                          if (c = 225 \<and> d = 154 \<and> e = 128) \<or>
                             (c = 226 \<and> d = 128 \<and> (e \<in> {128..138} \<or> e \<in> {168, 169, 175})) \<or>
                             (c = 226 \<and> d = 129 \<and> e = 159) \<or>
                             (c = 227 \<and> d = 128 \<and> e = 128) \<or>
                             (c = 239 \<and> d = 187 \<and> e = 191)
                          then trim_start es else c # d # e # es)))"

fun trim_end :: "nat list \<Rightarrow> nat list" where
  "trim_end [] = []"
| "trim_end (c # cs) = (if all_ws (c # cs) then [] else c # trim_end cs)"

definition digit_of :: "nat \<Rightarrow> nat \<Rightarrow> nat option" where
  "digit_of base c =
     (let v = (if 48 \<le> c \<and> c \<le> 57 then c - 48
               else if 97 \<le> c \<and> c \<le> 102 then c - 87
               else if 65 \<le> c \<and> c \<le> 70 then c - 55
               else 16)
      in if v < base then Some v else None)"

fun digits_value :: "nat \<Rightarrow> nat \<Rightarrow> nat list \<Rightarrow> nat option" where
  "digits_value base acc [] = Some acc"
| "digits_value base acc (c # cs) =
     (case digit_of base c of
        None \<Rightarrow> None
      | Some d \<Rightarrow> digits_value base (base * acc + d) cs)"

definition numeral_value :: "nat \<Rightarrow> nat list \<Rightarrow> nat option" where
  "numeral_value base ds = (if ds = [] then None else digits_value base 0 ds)"

definition is_digit :: "nat \<Rightarrow> bool" where
  "is_digit c = (48 \<le> c \<and> c \<le> 57)"

text \<open>From \<open>2^1024 - 2^970\<close> on, the nearest double is an infinity.\<close>

definition in_range :: "rat \<Rightarrow> jsnum" where
  "in_range r =
     (if 2 ^ 1024 - 2 ^ 970 \<le> \<bar>r\<bar> then (if 0 < r then PosInf else NegInf) else Fin r)"

definition scale10 :: "rat \<Rightarrow> int \<Rightarrow> rat" where
  "scale10 m k = (if 0 \<le> k then m * 10 ^ nat k else m / 10 ^ nat (- k))"

definition unsigned_decimal :: "nat list \<Rightarrow> rat option" where
  "unsigned_decimal b =
     (let ip = takeWhile is_digit b;
          r1 = dropWhile is_digit b;
          fp = (if r1 \<noteq> [] \<and> hd r1 = 46 then takeWhile is_digit (tl r1) else []);
          r2 = (if r1 \<noteq> [] \<and> hd r1 = 46 then dropWhile is_digit (tl r1) else r1)
      in if ip = [] \<and> fp = [] then None
         else (case digits_value 10 0 (ip @ fp) of
                 None \<Rightarrow> None
               | Some m \<Rightarrow>
                   if r2 = [] then Some (scale10 (of_nat m) (- int (length fp)))
                   else if hd r2 = 101 \<or> hd r2 = 69 then
                     (let r3 = tl r2;
                          neg = (r3 \<noteq> [] \<and> hd r3 = 45);
                          r4 = (if r3 \<noteq> [] \<and> (hd r3 = 45 \<or> hd r3 = 43) then tl r3 else r3)
                      in case numeral_value 10 r4 of
                           None \<Rightarrow> None
                         | Some e \<Rightarrow>
                             Some (scale10 (of_nat m)
                                     ((if neg then - int e else int e) - int (length fp))))
                   else None))"

definition string_to_number :: "nat list \<Rightarrow> jsnum" where
  "string_to_number b =
     (if b = [] then Fin 0
      else if take 2 b = [48, 120] \<or> take 2 b = [48, 88] then
        (case numeral_value 16 (drop 2 b) of None \<Rightarrow> NaN | Some v \<Rightarrow> in_range (of_nat v))
      else if take 2 b = [48, 111] \<or> take 2 b = [48, 79] then
        (case numeral_value 8 (drop 2 b) of None \<Rightarrow> NaN | Some v \<Rightarrow> in_range (of_nat v))
      else if take 2 b = [48, 98] \<or> take 2 b = [48, 66] then
        (case numeral_value 2 (drop 2 b) of None \<Rightarrow> NaN | Some v \<Rightarrow> in_range (of_nat v))
      else
        (let neg = (hd b = 45);
             u = (if hd b = 45 \<or> hd b = 43 then tl b else b)
         in if u = map of_char ''Infinity'' then (if neg then NegInf else PosInf)
            else (case unsigned_decimal u of
                    None \<Rightarrow> NaN
                  | Some r \<Rightarrow> in_range (if neg then - r else r))))"

definition js_Number :: "string \<Rightarrow> jsnum" where
  "js_Number s = string_to_number (trim_end (trim_start (map of_char s)))"

section \<open>The store\<close>

text \<open>
  The two tables. The columns are those of schema.prisma that the handlers use, together
  with \<open>role\<close> of a user and \<open>priority\<close> and \<open>recurring\<close> of a task, which the handlers read
  and write as columns though the schema file at hand does not list them. Times are
  numbers of milliseconds.
\<close>

record user =
  u_id :: int
  u_email :: string
  u_password :: string
  u_name :: string
  u_role :: string

record task =
  t_id :: int
  t_title :: string
  t_description :: string
  t_dueDate :: "int option"
  t_status :: string
  t_priority :: string
  t_recurring :: string
  t_userId :: int
  t_createdAt :: int
  t_updatedAt :: int

datatype store_error =
  Unreachable | ValidationError | RecordNotFound | UniqueViolation | ForeignKeyViolation

text \<open>
  What a list query hands to the store. A clause of the \<open>OR\<close> list is a case-insensitive
  \<open>contains\<close> on a text column, an \<open>equals\<close> with a number, or an \<open>equals\<close> with an instant.
\<close>

datatype clause =
    Contains string string
  | EqualsNum string jsnum
  | EqualsDate string int

record where_clause =
  w_status :: "string option"
  w_OR :: "clause list option"

record find_args =
  fa_where :: where_clause
  fa_orderBy :: "string \<times> string"
  fa_skip :: jsnum
  fa_take :: jsnum

datatype store_call =
    UserFindUnique int
  | UserUpdate int "(string \<times> jsval) list"
  | UserCreate "(string \<times> jsval) list"
  | TaskFindUnique jsnum
  | TaskDelete jsnum
  | TaskUpdate jsnum "(string \<times> jsval) list"
  | TaskFindMany find_args
  | TaskCount "where_clause option"

text \<open>
  The store's own rules for the values it is handed are not in the sources; they are
  carried by the store as it is given:
  \<^item> \<open>int_column\<close>: the integer the store takes a number for when it is given for an
    \<open>Int\<close> column (an id), \<open>None\<close> when the store refuses the number;
  \<^item> \<open>date_string\<close>: the instant the store reads from a string given for a date column;
  \<^item> \<open>object_value\<close>: for an object given for a column in an update (an operation such as
    \<open>{ set: v }\<close>), the plain value to write, from the column's name, the object and the
    column's present value;
  \<^item> \<open>relation_write\<close>: for an object given for the relation \<open>user\<close> of a task (a nested
    write such as \<open>{ connect: { id: 2 } }\<close>), the owner the task gets and the users as
    they are afterwards, from the object, the users and the present owner.
\<close>

record store_rules =
  int_column :: "jsnum \<Rightarrow> int option"
  date_string :: "string \<Rightarrow> int option"
  object_value :: "string \<Rightarrow> (string \<times> jsval) list \<Rightarrow> jsval \<Rightarrow> jsval option"
  relation_write :: "(string \<times> jsval) list \<Rightarrow> user list \<Rightarrow> int \<Rightarrow> (int \<times> user list) option"

text \<open>
  The store holds the two tables, its clock, its rules and, like a test double, the list
  of the calls made on it so far. A store that is not reachable fails every call. Of the
  timestamps the store keeps by itself, \<open>updatedAt\<close> of a task is modelled.
\<close>

record store =
  users :: "user list"
  tasks :: "task list"
  reachable :: bool
  calls :: "store_call list"
  clock :: int
  rules :: store_rules

definition logged :: "store_call \<Rightarrow> store \<Rightarrow> store" where
  "logged c st = st\<lparr>calls := calls st @ [c]\<rparr>"

definition user_findUnique :: "int \<Rightarrow> store \<Rightarrow> (store_error + user option) \<times> store" where
  "user_findUnique i st =
     (if \<not> reachable st then (Inl Unreachable, logged (UserFindUnique i) st)
      else (Inr (find (\<lambda>u. u_id u = i) (users st)), logged (UserFindUnique i) st))"

definition task_findUnique :: "jsnum \<Rightarrow> store \<Rightarrow> (store_error + task option) \<times> store" where
  "task_findUnique n st =
     (if \<not> reachable st then (Inl Unreachable, logged (TaskFindUnique n) st)
      else (case int_column (rules st) n of
              None \<Rightarrow> (Inl ValidationError, logged (TaskFindUnique n) st)
            | Some i \<Rightarrow> (Inr (find (\<lambda>t. t_id t = i) (tasks st)), logged (TaskFindUnique n) st)))"

definition task_delete :: "jsnum \<Rightarrow> store \<Rightarrow> (store_error + task) \<times> store" where
  "task_delete n st =
     (if \<not> reachable st then (Inl Unreachable, logged (TaskDelete n) st)
      else (case int_column (rules st) n of
              None \<Rightarrow> (Inl ValidationError, logged (TaskDelete n) st)
            | Some i \<Rightarrow>
                (case find (\<lambda>t. t_id t = i) (tasks st) of
                   None \<Rightarrow> (Inl RecordNotFound, logged (TaskDelete n) st)
                 | Some t \<Rightarrow>
                     (Inr t, logged (TaskDelete n)
                               (st\<lparr>tasks := filter (\<lambda>t. t_id t \<noteq> i) (tasks st)\<rparr>)))))"

text \<open>
  In an update, an object given for a column is first turned into the plain value to
  write, by the store's rule and the column's present value \<open>cur k\<close>; the relation \<open>user\<close>
  is left for the nested write.
\<close>

fun resolve_objects ::
  "store_rules \<Rightarrow> (string \<Rightarrow> jsval) \<Rightarrow> (string \<times> jsval) list \<Rightarrow> (string \<times> jsval) list option" where
  "resolve_objects R cur [] = Some []"
| "resolve_objects R cur ((k, JObj obj) # kvs) =
     (if k = ''user'' then map_option ((#) (k, JObj obj)) (resolve_objects R cur kvs)
      else (case object_value R k obj (cur k) of
              None \<Rightarrow> None
            | Some w \<Rightarrow> map_option ((#) (k, w)) (resolve_objects R cur kvs)))"
| "resolve_objects R cur ((k, v) # kvs) = map_option ((#) (k, v)) (resolve_objects R cur kvs)"

text \<open>
  Writing columns of a user: a key whose value is \<open>undefined\<close> is skipped, a string goes
  into the column of that name, anything else is refused by the store's validation.
\<close>

fun set_user_field :: "string \<Rightarrow> jsval \<Rightarrow> user \<Rightarrow> store_error + user" where
  "set_user_field k JUndefined u = Inr u"
| "set_user_field k (JStr s) u =
     (if k = ''email'' then Inr (u\<lparr>u_email := s\<rparr>)
      else if k = ''password'' then Inr (u\<lparr>u_password := s\<rparr>)
      else if k = ''name'' then Inr (u\<lparr>u_name := s\<rparr>)
      else if k = ''role'' then Inr (u\<lparr>u_role := s\<rparr>)
      else Inl ValidationError)"
| "set_user_field k v u = Inl ValidationError"

fun set_user_fields :: "(string \<times> jsval) list \<Rightarrow> user \<Rightarrow> store_error + user" where
  "set_user_fields [] u = Inr u"
| "set_user_fields ((k, v) # kvs) u =
     (case set_user_field k v u of Inl e \<Rightarrow> Inl e | Inr u' \<Rightarrow> set_user_fields kvs u')"

definition email_taken :: "string \<Rightarrow> int \<Rightarrow> user list \<Rightarrow> bool" where
  "email_taken e i us = (find (\<lambda>u. u_email u = e \<and> u_id u \<noteq> i) us \<noteq> None)"

text \<open>A text column of a user as the value read from the row.\<close>

definition user_column :: "user \<Rightarrow> string \<Rightarrow> jsval" where
  "user_column u k =
     (if k = ''email'' then JStr (u_email u)
      else if k = ''password'' then JStr (u_password u)
      else if k = ''name'' then JStr (u_name u)
      else if k = ''role'' then JStr (u_role u)
      else JUndefined)"

definition user_update ::
  "int \<Rightarrow> (string \<times> jsval) list \<Rightarrow> store \<Rightarrow> (store_error + user) \<times> store" where
  "user_update i data st =
     (if \<not> reachable st then (Inl Unreachable, logged (UserUpdate i data) st)
      else (case find (\<lambda>u. u_id u = i) (users st) of
              None \<Rightarrow> (Inl RecordNotFound, logged (UserUpdate i data) st)
            | Some u \<Rightarrow>
                (case resolve_objects (rules st) (user_column u) data of
                   None \<Rightarrow> (Inl ValidationError, logged (UserUpdate i data) st)
                 | Some plain \<Rightarrow>
                     (case set_user_fields plain u of
                        Inl e \<Rightarrow> (Inl e, logged (UserUpdate i data) st)
                      | Inr u' \<Rightarrow>
                          if u_email u' \<noteq> u_email u \<and> email_taken (u_email u') i (users st)
                          then (Inl UniqueViolation, logged (UserUpdate i data) st)
                          else (Inr u',
                                logged (UserUpdate i data)
                                  (st\<lparr>users :=
                                        map (\<lambda>x. if u_id x = i then u' else x) (users st)\<rparr>))))))"

text \<open>The id the store gives to a new row: one more than the largest so far.\<close>

definition next_id :: "int list \<Rightarrow> int" where
  "next_id ids = fold max ids 0 + 1"

text \<open>
  Creating a user needs email, password and name as strings; the role column has the
  default USER. A create takes plain values only.
\<close>

definition user_create :: "(string \<times> jsval) list \<Rightarrow> store \<Rightarrow> (store_error + user) \<times> store" where
  "user_create data st =
     (if \<not> reachable st then (Inl Unreachable, logged (UserCreate data) st)
      else (case (field_of data ''email'', field_of data ''password'', field_of data ''name'') of
              (JStr e, JStr pw, JStr n) \<Rightarrow>
                (case set_user_fields data
                        \<lparr>u_id = next_id (map u_id (users st)), u_email = e, u_password = pw,
                         u_name = n, u_role = ''USER''\<rparr> of
                   Inl err \<Rightarrow> (Inl err, logged (UserCreate data) st)
                 | Inr u \<Rightarrow>
                     if email_taken (u_email u) (u_id u) (users st)
                     then (Inl UniqueViolation, logged (UserCreate data) st)
                     else (Inr u, logged (UserCreate data) (st\<lparr>users := users st @ [u]\<rparr>)))
            | _ \<Rightarrow> (Inl ValidationError, logged (UserCreate data) st)))"

text \<open>A column of a task as the value the code reads from the row; no such column reads as \<open>undefined\<close>.\<close>

definition column :: "string \<Rightarrow> task \<Rightarrow> jsval" where
  "column k t =
     (if k = ''id'' then JNum (Fin (of_int (t_id t)))
      else if k = ''title'' then JStr (t_title t)
      else if k = ''description'' then JStr (t_description t)
      else if k = ''dueDate'' then (case t_dueDate t of None \<Rightarrow> JNull | Some i \<Rightarrow> JDate (Some i))
      else if k = ''status'' then JStr (t_status t)
      else if k = ''priority'' then JStr (t_priority t)
      else if k = ''recurring'' then JStr (t_recurring t)
      else if k = ''userId'' then JNum (Fin (of_int (t_userId t)))
      else if k = ''createdAt'' then JDate (Some (t_createdAt t))
      else if k = ''updatedAt'' then JDate (Some (t_updatedAt t))
      else JUndefined)"

definition task_columns :: "string list" where
  "task_columns = [''id'', ''title'', ''description'', ''dueDate'', ''status'', ''priority'',
                   ''recurring'', ''userId'', ''createdAt'', ''updatedAt'']"

text \<open>
  Writing plain values to columns of a task. A key whose value is \<open>undefined\<close> is skipped.
  A text column takes a string; a date column takes a valid date or a date string the
  store can read, and \<open>dueDate\<close> also \<open>null\<close>; a number column takes a number the store
  takes for an integer. The relation \<open>user\<close> takes an object, which is left to the nested
  write. Anything else, and any key that is neither a column nor the relation, is
  refused by the store's validation.
\<close>

fun as_instant :: "store_rules \<Rightarrow> jsval \<Rightarrow> int option" where
  "as_instant R (JDate d) = d"
| "as_instant R (JStr s) = date_string R s"
| "as_instant R v = None"

definition set_task_field ::
  "store_rules \<Rightarrow> string \<Rightarrow> jsval \<Rightarrow> task \<Rightarrow> store_error + task" where
  "set_task_field R k v t =
     (if v = JUndefined then Inr t
      else if k = ''title'' then
        (case v of JStr s \<Rightarrow> Inr (t\<lparr>t_title := s\<rparr>) | _ \<Rightarrow> Inl ValidationError)
      else if k = ''description'' then
        (case v of JStr s \<Rightarrow> Inr (t\<lparr>t_description := s\<rparr>) | _ \<Rightarrow> Inl ValidationError)
      else if k = ''status'' then
        (case v of JStr s \<Rightarrow> Inr (t\<lparr>t_status := s\<rparr>) | _ \<Rightarrow> Inl ValidationError)
      else if k = ''priority'' then
        (case v of JStr s \<Rightarrow> Inr (t\<lparr>t_priority := s\<rparr>) | _ \<Rightarrow> Inl ValidationError)
      else if k = ''recurring'' then
        (case v of JStr s \<Rightarrow> Inr (t\<lparr>t_recurring := s\<rparr>) | _ \<Rightarrow> Inl ValidationError)
      else if k = ''dueDate'' then
        (if v = JNull then Inr (t\<lparr>t_dueDate := None\<rparr>)
         else (case as_instant R v of
                 None \<Rightarrow> Inl ValidationError
               | Some i \<Rightarrow> Inr (t\<lparr>t_dueDate := Some i\<rparr>)))
      else if k = ''createdAt'' then
        (case as_instant R v of
           None \<Rightarrow> Inl ValidationError
         | Some i \<Rightarrow> Inr (t\<lparr>t_createdAt := i\<rparr>))
      else if k = ''updatedAt'' then
        (case as_instant R v of
           None \<Rightarrow> Inl ValidationError
         | Some i \<Rightarrow> Inr (t\<lparr>t_updatedAt := i\<rparr>))
      else if k = ''id'' then
        (case v of
           JNum n \<Rightarrow>
             (case int_column R n of
                None \<Rightarrow> Inl ValidationError
              | Some i \<Rightarrow> Inr (t\<lparr>t_id := i\<rparr>))
         | _ \<Rightarrow> Inl ValidationError)
      else if k = ''userId'' then
        (case v of
           JNum n \<Rightarrow>
             (case int_column R n of
                None \<Rightarrow> Inl ValidationError
              | Some i \<Rightarrow> Inr (t\<lparr>t_userId := i\<rparr>))
         | _ \<Rightarrow> Inl ValidationError)
      else if k = ''user'' then
        (case v of JObj obj \<Rightarrow> Inr t | _ \<Rightarrow> Inl ValidationError)
      else Inl ValidationError)"

fun set_task_fields ::
  "store_rules \<Rightarrow> (string \<times> jsval) list \<Rightarrow> task \<Rightarrow> store_error + task" where
  "set_task_fields R [] t = Inr t"
| "set_task_fields R ((k, v) # kvs) t =
     (case set_task_field R k v t of Inl e \<Rightarrow> Inl e | Inr t' \<Rightarrow> set_task_fields R kvs t')"

text \<open>
  The nested write on the relation \<open>user\<close>, if the data has one: it gives the task its
  owner and may change the users. The data of an update either names the relation or
  writes \<open>id\<close> and \<open>userId\<close> directly, not both.
\<close>

definition write_relation ::
  "store_rules \<Rightarrow> (string \<times> jsval) list \<Rightarrow> user list \<Rightarrow> task \<Rightarrow> store_error + task \<times> user list" where
  "write_relation R data us t =
     (case field_of data ''user'' of
        JObj obj \<Rightarrow>
          if field_of data ''id'' \<noteq> JUndefined \<or> field_of data ''userId'' \<noteq> JUndefined
          then Inl ValidationError
          else (case relation_write R obj us (t_userId t) of
                  None \<Rightarrow> Inl ValidationError
                | Some (i, us') \<Rightarrow> Inr (t\<lparr>t_userId := i\<rparr>, us'))
      | _ \<Rightarrow> Inr (t, us))"

text \<open>\<open>updatedAt\<close> is set to the time of the update unless the data gives it.\<close>

definition stamp :: "(string \<times> jsval) list \<Rightarrow> int \<Rightarrow> task \<Rightarrow> task" where
  "stamp data now t =
     (if field_of data ''updatedAt'' = JUndefined then t\<lparr>t_updatedAt := now\<rparr> else t)"

text \<open>The row with the given id is replaced, the others stay.\<close>

fun update_row :: "int \<Rightarrow> task \<Rightarrow> task list \<Rightarrow> task list" where
  "update_row i t' [] = []"
| "update_row i t' (x # xs) = (if t_id x = i then t' # xs else x # update_row i t' xs)"

text \<open>
  \<open>prisma.task.update\<close>: the row must exist, the written values must be valid, a new id
  must be free and the owner must exist.
\<close>

definition task_update ::
  "jsnum \<Rightarrow> (string \<times> jsval) list \<Rightarrow> store \<Rightarrow> (store_error + task) \<times> store" where
  "task_update n data st =
     (if \<not> reachable st then (Inl Unreachable, logged (TaskUpdate n data) st)
      else (case int_column (rules st) n of
              None \<Rightarrow> (Inl ValidationError, logged (TaskUpdate n data) st)
            | Some i \<Rightarrow>
                (case find (\<lambda>t. t_id t = i) (tasks st) of
                   None \<Rightarrow> (Inl RecordNotFound, logged (TaskUpdate n data) st)
                 | Some t \<Rightarrow>
                     (case resolve_objects (rules st) (\<lambda>k. column k t) data of
                        None \<Rightarrow> (Inl ValidationError, logged (TaskUpdate n data) st)
                      | Some plain \<Rightarrow>
                          (case set_task_fields (rules st) plain t of
                             Inl e \<Rightarrow> (Inl e, logged (TaskUpdate n data) st)
                           | Inr t1 \<Rightarrow>
                               (case write_relation (rules st) data (users st) t1 of
                                  Inl e \<Rightarrow> (Inl e, logged (TaskUpdate n data) st)
                                | Inr (t2, us) \<Rightarrow>
                                    if t_id t2 \<noteq> i \<and>
                                       find (\<lambda>x. t_id x = t_id t2) (tasks st) \<noteq> None
                                    then (Inl UniqueViolation, logged (TaskUpdate n data) st)
                                    else if find (\<lambda>u. u_id u = t_userId t2) us = None
                                    then (Inl ForeignKeyViolation, logged (TaskUpdate n data) st)
                                    else (Inr (stamp plain (clock st) t2),
                                          logged (TaskUpdate n data)
                                            (st\<lparr>tasks := update_row i (stamp plain (clock st) t2)
                                                           (tasks st),
                                                users := us\<rparr>))))))))"

section \<open>Requests and responses\<close>

record principal =
  p_id :: int
  p_name :: string
  p_email :: string
  p_role :: string

record request =
  req_headers :: "(string \<times> string) list"
  req_params :: "(string \<times> string) list"
  req_query :: "(string \<times> string) list"
  req_body :: "(string \<times> jsval) list"
  req_user :: "principal option"

datatype payload =
    StatusText
  | ErrorJson string
  | MessageJson string
  | TaskJson task
  | UserJson user
  | TokenJson string
  | TaskListJson "task list" jsnum jsnum nat

record response =
  status :: nat
  payload :: payload

text \<open>
  What a middleware does with a request: it answers, it calls \<open>next()\<close> with the request
  as it now is, or it throws and leaves the request to the framework's error handling.
\<close>

datatype outcome = Respond response | Next request | Throw string

fun replied :: "outcome \<Rightarrow> nat option" where
  "replied (Respond r) = Some (status r)"
| "replied _ = None"

section \<open>The task router (part_006)\<close>

text \<open>\<open>checkAdmin\<close>: destructuring \<open>req.user\<close> throws a TypeError when no principal is attached.\<close>

definition checkAdmin :: "request \<Rightarrow> outcome" where
  "checkAdmin req =
     (case req_user req of
        None \<Rightarrow> Throw ''TypeError''
      | Some p \<Rightarrow>
          if p_role p \<noteq> ''ADMIN''
          then Respond \<lparr>status = 403, payload = ErrorJson ''Unauthorized''\<rparr>
          else Next req)"


definition deleteTask :: "(string \<Rightarrow> jsnum) \<Rightarrow> request \<Rightarrow> store \<Rightarrow> response \<times> store" where
  "deleteTask N req st =
     (let id = map_of (req_params req) ''id'' in
      case task_findUnique (Number_of N id) st of
        (Inl e, st1) \<Rightarrow> (\<lparr>status = 500, payload = ErrorJson ''Failed to delete task''\<rparr>, st1)
      | (Inr None, st1) \<Rightarrow> (\<lparr>status = 404, payload = ErrorJson ''Task not found''\<rparr>, st1)
      | (Inr (Some t), st1) \<Rightarrow>
          (case task_delete (Number_of N id) st1 of
             (Inl e, st2) \<Rightarrow> (\<lparr>status = 500, payload = ErrorJson ''Failed to delete task''\<rparr>, st2)
           | (Inr d, st2) \<Rightarrow>
               (\<lparr>status = 200, payload = MessageJson ''Task deleted successfully''\<rparr>, st2)))"

text \<open>\<open>router.delete('/:id', checkAdmin, deleteTask)\<close>\<close>

definition delete_route :: "(string \<Rightarrow> jsnum) \<Rightarrow> request \<Rightarrow> store \<Rightarrow> outcome \<times> store" where
  "delete_route N req st =
     (case checkAdmin req of
        Respond r \<Rightarrow> (Respond r, st)
      | Throw e \<Rightarrow> (Throw e, st)
      | Next req' \<Rightarrow> (Respond (fst (deleteTask N req' st)), snd (deleteTask N req' st)))"



section \<open>Authentication (auth.js, profile.js)\<close>

text \<open>
  \<open>jwt.verify(token, secret)\<close> belongs to the token library: it either throws or returns
  the decoded payload, of which the code reads \<open>userId\<close> and \<open>role\<close>. It is the
  parameter \<open>V\<close> of the middleware.
\<close>

datatype token_error = InvalidSignature | Malformed | Expired

record decoded =
  d_userId :: int
  d_role :: string

text \<open>
  \<open>authHeader && authHeader.split(' ')[1]\<close>: no header gives \<open>undefined\<close>, an empty header
  gives the empty string, a header without a space gives \<open>undefined\<close>, any other header
  gives its second piece (which may be empty).
\<close>

definition header_token :: "string option \<Rightarrow> string option" where
  "header_token authHeader =
     (case authHeader of
        None \<Rightarrow> None
      | Some h \<Rightarrow>
          if h = [] then Some []
          else (case split_on CHR '' '' h of
                  [] \<Rightarrow> None
                | [a] \<Rightarrow> None
                | a # t # rest \<Rightarrow> Some t))"

text \<open>\<open>!token\<close>\<close>

definition no_token :: "request \<Rightarrow> bool" where
  "no_token req =
     (header_token (map_of (req_headers req) ''authorization'') = None \<or>
      header_token (map_of (req_headers req) ''authorization'') = Some [])"

definition bearer :: "request \<Rightarrow> string" where
  "bearer req =
     (case header_token (map_of (req_headers req) ''authorization'') of
        None \<Rightarrow> []
      | Some t \<Rightarrow> t)"

text \<open>
  The claim's own words, for comparison with what the code extracts: a bearer token is
  present when the header is the scheme word \<open>Bearer\<close>, one space and a non-empty token.
\<close>

definition bearer_credential :: "string option \<Rightarrow> string option" where
  "bearer_credential authHeader =
     (case authHeader of
        None \<Rightarrow> None
      | Some h \<Rightarrow>
          if take 7 h = ''Bearer '' \<and> drop 7 h \<noteq> [] then Some (drop 7 h) else None)"

text \<open>\<open>authToken\<close> of auth.js: the one the task router imports.\<close>

definition authToken ::
  "(string \<Rightarrow> token_error + decoded) \<Rightarrow> request \<Rightarrow> store \<Rightarrow> outcome \<times> store" where
  "authToken V req st =
     (if no_token req then (Respond \<lparr>status = 401, payload = StatusText\<rparr>, st)
      else (case V (bearer req) of
              Inl e \<Rightarrow> (Respond \<lparr>status = 403, payload = StatusText\<rparr>, st)
            | Inr d \<Rightarrow>
                (case user_findUnique (d_userId d) st of
                   (Inl e, st1) \<Rightarrow> (Respond \<lparr>status = 403, payload = StatusText\<rparr>, st1)
                 | (Inr None, st1) \<Rightarrow> (Respond \<lparr>status = 403, payload = StatusText\<rparr>, st1)
                 | (Inr (Some u), st1) \<Rightarrow>
                     (Next (req\<lparr>req_user :=
                              Some \<lparr>p_id = u_id u, p_name = u_name u, p_email = u_email u,
                                    p_role = d_role d\<rparr>\<rparr>), st1))))"

text \<open>
  \<open>authToken\<close> of profile.js: \<open>req.user = user\<close>, the record as the store returned it.
  Of that record the principal keeps the four fields the handlers read.
\<close>

definition authToken_profile ::
  "(string \<Rightarrow> token_error + decoded) \<Rightarrow> request \<Rightarrow> store \<Rightarrow> outcome \<times> store" where
  "authToken_profile V req st =
     (if no_token req then (Respond \<lparr>status = 401, payload = StatusText\<rparr>, st)
      else (case V (bearer req) of
              Inl e \<Rightarrow> (Respond \<lparr>status = 403, payload = StatusText\<rparr>, st)
            | Inr d \<Rightarrow>
                (case user_findUnique (d_userId d) st of
                   (Inl e, st1) \<Rightarrow> (Respond \<lparr>status = 403, payload = StatusText\<rparr>, st1)
                 | (Inr None, st1) \<Rightarrow> (Respond \<lparr>status = 403, payload = StatusText\<rparr>, st1)
                 | (Inr (Some u), st1) \<Rightarrow>
                     (Next (req\<lparr>req_user :=
                              Some \<lparr>p_id = u_id u, p_name = u_name u, p_email = u_email u,
                                    p_role = u_role u\<rparr>\<rparr>), st1))))"

text \<open>The store after some change of the roles it holds, everything else as it was.\<close>

definition with_roles :: "(user \<Rightarrow> string) \<Rightarrow> store \<Rightarrow> store" where
  "with_roles f st = st\<lparr>users := map (\<lambda>u. u\<lparr>u_role := f u\<rparr>) (users st)\<rparr>"

section \<open>Roles: the user router (part_003) and registration (auth.js)\<close>

text \<open>
  \<open>updateUserRole\<close>, behind \<open>authToken\<close> on \<open>POST /role\<close>. The body of the 500 answer is
  the store's own message, which is not modelled.
\<close>

definition updateUserRole :: "request \<Rightarrow> store \<Rightarrow> outcome \<times> store" where
  "updateUserRole req st =
     (case req_user req of
        None \<Rightarrow> (Throw ''TypeError'', st)
      | Some p \<Rightarrow>
          if p_role p \<noteq> ''ADMIN''
          then (Respond \<lparr>status = 403, payload = ErrorJson ''Only admins can update roles''\<rparr>, st)
          else (case user_update (p_id p) [(''role'', field_of (req_body req) ''role'')] st of
                  (Inl e, st1) \<Rightarrow> (Respond \<lparr>status = 500, payload = ErrorJson ''error.message''\<rparr>, st1)
                | (Inr u, st1) \<Rightarrow> (Respond \<lparr>status = 200, payload = UserJson u\<rparr>, st1)))"

text \<open>
  \<open>register\<close>. The password hash \<open>H\<close> and the signing of a token \<open>S\<close> belong to libraries
  and are parameters; hashing anything but a string throws, which the handler catches.
\<close>

definition register ::
  "(string \<Rightarrow> string) \<Rightarrow> (decoded \<Rightarrow> string) \<Rightarrow> request \<Rightarrow> store \<Rightarrow> response \<times> store" where
  "register H S req st =
     (let email = field_of (req_body req) ''email'';
          password = field_of (req_body req) ''password'';
          name = field_of (req_body req) ''name'';
          role = field_of (req_body req) ''role''
      in if \<not> truthy email \<or> \<not> truthy password \<or> \<not> truthy name
         then (\<lparr>status = 400, payload = ErrorJson ''Missing required fields''\<rparr>, st)
         else (case password of
                 JStr pw \<Rightarrow>
                   (case user_create [(''email'', email), (''password'', JStr (H pw)),
                                      (''name'', name), (''role'', js_or role (JStr ''USER''))] st of
                      (Inl e, st1) \<Rightarrow>
                        (\<lparr>status = 500, payload = ErrorJson ''Registration Failed''\<rparr>, st1)
                    | (Inr u, st1) \<Rightarrow>
                        (\<lparr>status = 201,
                          payload = TokenJson (S \<lparr>d_userId = u_id u, d_role = u_role u\<rparr>)\<rparr>, st1))
               | _ \<Rightarrow> (\<lparr>status = 500, payload = ErrorJson ''Registration Failed''\<rparr>, st)))"

section \<open>Listing tasks\<close>

text \<open>
  The answers of the store to a list query and to a count are parameters \<open>FM\<close> and \<open>CT\<close>
  of the handlers: what the claims are about is what the handlers send and what they make
  of the answers. \<open>new Date(s)\<close> is the parameter \<open>D\<close>, with \<open>None\<close> for an Invalid Date.
\<close>

text \<open>\<open>buildFilterConditions\<close> (part_005)\<close>

definition buildFilterConditions ::
  "(string \<Rightarrow> jsnum) \<Rightarrow> (string \<Rightarrow> int option) \<Rightarrow> (string \<Rightarrow> string option) \<Rightarrow> where_clause" where
  "buildFilterConditions N D query =
     \<lparr>w_status =
        (case query ''status'' of
           None \<Rightarrow> None
         | Some s \<Rightarrow> if s = [] then None else Some s),
      w_OR =
        (case query ''search'' of
           None \<Rightarrow> None
         | Some s \<Rightarrow>
             if s = [] then None
             else Some ([Contains ''title'' s, Contains ''description'' s,
                         EqualsNum ''userId'' (N s),
                         Contains ''recurring'' s, Contains ''priority'' s] @
                        (case D s of
                           None \<Rightarrow> []
                         | Some i \<Rightarrow> [EqualsDate ''dueDate'' i, EqualsDate ''createdAt'' i])))\<rparr>"

text \<open>The arguments of \<open>findMany\<close> in \<open>getAllTasks\<close> of part_005: \<open>orderBy: { [sortBy]: order }\<close>.\<close>

definition list_args_p005 ::
  "(string \<Rightarrow> jsnum) \<Rightarrow> (string \<Rightarrow> int option) \<Rightarrow> (string \<Rightarrow> string option) \<Rightarrow> find_args" where
  "list_args_p005 N D query =
     \<lparr>fa_where = buildFilterConditions N D query,
      fa_orderBy = (str_param ''createdAt'' (query ''sortBy''), str_param ''asc'' (query ''order'')),
      fa_skip = js_mul (js_sub (num_param N 1 (query ''page'')) (Fin 1))
                       (num_param N 10 (query ''limit'')),
      fa_take = num_param N 10 (query ''limit'')\<rparr>"

definition getAllTasks_p005 ::
  "(string \<Rightarrow> jsnum) \<Rightarrow> (string \<Rightarrow> int option) \<Rightarrow>
   (find_args \<Rightarrow> store_error + task list) \<Rightarrow> (where_clause option \<Rightarrow> store_error + nat) \<Rightarrow>
   request \<Rightarrow> store \<Rightarrow> response \<times> store" where
  "getAllTasks_p005 N D FM CT req st =
     (let query = map_of (req_query req);
          args = list_args_p005 N D query;
          st1 = logged (TaskFindMany args) st
      in case FM args of
           Inl e \<Rightarrow> (\<lparr>status = 500, payload = ErrorJson ''Failed to fetch tasks''\<rparr>, st1)
         | Inr found \<Rightarrow>
             (let st2 = logged (TaskCount (Some (buildFilterConditions N D query))) st1
              in case CT (Some (buildFilterConditions N D query)) of
                   Inl e \<Rightarrow> (\<lparr>status = 500, payload = ErrorJson ''Failed to fetch tasks''\<rparr>, st2)
                 | Inr totalTasks \<Rightarrow>
                     (\<lparr>status = 200,
                       payload = TaskListJson found (num_param N 1 (query ''page''))
                                   (js_ceil (js_div (Fin (of_nat totalTasks))
                                                    (num_param N 10 (query ''limit''))))
                                   totalTasks\<rparr>, st2)))"

text \<open>
  Reading \<open>orderOptions[sortBy]\<close> on an object literal finds the literal's own keys and,
  after them, the properties every object inherits from \<open>Object.prototype\<close>. An inherited
  property is a built-in function or object; used as a computed key it is turned into
  the text given here.
\<close>

definition Object_prototype :: "(string \<times> string) list" where
  "Object_prototype =
     [(''constructor'', ''function Object() { [native code] }''),
      (''__defineGetter__'', ''function __defineGetter__() { [native code] }''),
      (''__defineSetter__'', ''function __defineSetter__() { [native code] }''),
      (''hasOwnProperty'', ''function hasOwnProperty() { [native code] }''),
      (''__lookupGetter__'', ''function __lookupGetter__() { [native code] }''),
      (''__lookupSetter__'', ''function __lookupSetter__() { [native code] }''),
      (''isPrototypeOf'', ''function isPrototypeOf() { [native code] }''),
      (''propertyIsEnumerable'', ''function propertyIsEnumerable() { [native code] }''),
      (''toString'', ''function toString() { [native code] }''),
      (''valueOf'', ''function valueOf() { [native code] }''),
      (''__proto__'', ''[object Object]''),
      (''toLocaleString'', ''function toLocaleString() { [native code] }'')]"

definition read_key :: "(string \<times> string) list \<Rightarrow> string \<Rightarrow> string option" where
  "read_key obj k =
     (case map_of obj k of
        Some v \<Rightarrow> Some v
      | None \<Rightarrow> map_of Object_prototype k)"

text \<open>\<open>getAllTasks\<close> of part_006: \<open>[orderOptions[sortBy] || 'createdAt']: order\<close>.\<close>

definition orderOptions_p006 :: "(string \<times> string) list" where
  "orderOptions_p006 =
     [(''dueDate'', ''dueDate''), (''createdAt'', ''createdAt''), (''status'', ''status''),
      (''userId'', ''userId''), (''recurring'', ''recurring''), (''priority'', ''priority'')]"

definition where_p006 ::
  "(string \<Rightarrow> jsnum) \<Rightarrow> (string \<Rightarrow> int option) \<Rightarrow> (string \<Rightarrow> string option) \<Rightarrow> where_clause" where
  "where_p006 N D query =
     \<lparr>w_status =
        (case query ''status'' of
           None \<Rightarrow> None
         | Some s \<Rightarrow> if s = [] then None else Some s),
      w_OR =
        (case query ''search'' of
           None \<Rightarrow> None
         | Some s \<Rightarrow>
             if s = [] then None
             else Some ([Contains ''title'' s, Contains ''description'' s,
                         EqualsNum ''userId'' (N s),
                         Contains ''recurring'' s, Contains ''priority'' s] @
                        (case D s of
                           None \<Rightarrow> []
                         | Some i \<Rightarrow> [EqualsDate ''dueDate'' i, EqualsDate ''createdAt'' i])))\<rparr>"

definition list_args_p006 ::
  "(string \<Rightarrow> jsnum) \<Rightarrow> (string \<Rightarrow> int option) \<Rightarrow> (string \<Rightarrow> string option) \<Rightarrow> find_args" where
  "list_args_p006 N D query =
     \<lparr>fa_where = where_p006 N D query,
      fa_orderBy =
        ((case read_key orderOptions_p006 (str_param ''createdAt'' (query ''sortBy'')) of
            Some v \<Rightarrow> v
          | None \<Rightarrow> ''createdAt''),
         str_param ''asc'' (query ''order'')),
      fa_skip = js_mul (js_sub (num_param N 1 (query ''page'')) (Fin 1))
                       (num_param N 10 (query ''limit'')),
      fa_take = num_param N 10 (query ''limit'')\<rparr>"

definition getAllTasks_p006 ::
  "(string \<Rightarrow> jsnum) \<Rightarrow> (string \<Rightarrow> int option) \<Rightarrow>
   (find_args \<Rightarrow> store_error + task list) \<Rightarrow> (where_clause option \<Rightarrow> store_error + nat) \<Rightarrow>
   request \<Rightarrow> store \<Rightarrow> response \<times> store" where
  "getAllTasks_p006 N D FM CT req st =
     (let query = map_of (req_query req);
          args = list_args_p006 N D query;
          st1 = logged (TaskFindMany args) st
      in case FM args of
           Inl e \<Rightarrow> (\<lparr>status = 500, payload = ErrorJson ''Failed to fetch tasks''\<rparr>, st1)
         | Inr found \<Rightarrow>
             (let st2 = logged (TaskCount (Some (where_p006 N D query))) st1
              in case CT (Some (where_p006 N D query)) of
                   Inl e \<Rightarrow> (\<lparr>status = 500, payload = ErrorJson ''Failed to fetch tasks''\<rparr>, st2)
                 | Inr totalTasks \<Rightarrow>
                     (\<lparr>status = 200,
                       payload = TaskListJson found (num_param N 1 (query ''page''))
                                   (js_ceil (js_div (Fin (of_nat totalTasks))
                                                    (num_param N 10 (query ''limit''))))
                                   totalTasks\<rparr>, st2)))"

text \<open>
  \<open>getAllTasks\<close> of tasks.js: three sort keys, no search, \<open>sortBy\<close> without a default
  (absent, it is looked up as the key \<open>undefined\<close>), and a count without a filter.
\<close>

definition orderOptions_tasks :: "(string \<times> string) list" where
  "orderOptions_tasks =
     [(''dueDate'', ''dueDate''), (''createdAt'', ''createdAt''), (''status'', ''status'')]"

definition list_args_tasks ::
  "(string \<Rightarrow> jsnum) \<Rightarrow> (string \<Rightarrow> string option) \<Rightarrow> find_args" where
  "list_args_tasks N query =
     \<lparr>fa_where =
        \<lparr>w_status =
           (case query ''status'' of
              None \<Rightarrow> None
            | Some s \<Rightarrow> if s = [] then None else Some s),
         w_OR = None\<rparr>,
      fa_orderBy =
        ((case read_key orderOptions_tasks (str_param ''undefined'' (query ''sortBy'')) of
            Some v \<Rightarrow> v
          | None \<Rightarrow> ''createdAt''),
         str_param ''asc'' (query ''order'')),
      fa_skip = js_mul (js_sub (num_param N 1 (query ''page'')) (Fin 1))
                       (num_param N 10 (query ''limit'')),
      fa_take = num_param N 10 (query ''limit'')\<rparr>"

definition getAllTasks_tasks ::
  "(string \<Rightarrow> jsnum) \<Rightarrow>
   (find_args \<Rightarrow> store_error + task list) \<Rightarrow> (where_clause option \<Rightarrow> store_error + nat) \<Rightarrow>
   request \<Rightarrow> store \<Rightarrow> response \<times> store" where
  "getAllTasks_tasks N FM CT req st =
     (let query = map_of (req_query req);
          args = list_args_tasks N query;
          st1 = logged (TaskFindMany args) st
      in case FM args of
           Inl e \<Rightarrow> (\<lparr>status = 500, payload = ErrorJson ''Failed to fetch tasks''\<rparr>, st1)
         | Inr found \<Rightarrow>
             (let st2 = logged (TaskCount None) st1
              in case CT None of
                   Inl e \<Rightarrow> (\<lparr>status = 500, payload = ErrorJson ''Failed to fetch tasks''\<rparr>, st2)
                 | Inr totalTasks \<Rightarrow>
                     (\<lparr>status = 200,
                       payload = TaskListJson found (num_param N 1 (query ''page''))
                                   (js_ceil (js_div (Fin (of_nat totalTasks))
                                                    (num_param N 10 (query ''limit''))))
                                   totalTasks\<rparr>, st2)))"

text \<open>What the calls on the store say about sorting and filtering.\<close>

fun sort_fields_sent :: "store_call list \<Rightarrow> string list" where
  "sort_fields_sent [] = []"
| "sort_fields_sent (TaskFindMany a # cs) = fst (fa_orderBy a) # sort_fields_sent cs"
| "sort_fields_sent (c # cs) = sort_fields_sent cs"

fun filters_sent :: "store_call list \<Rightarrow> where_clause option list" where
  "filters_sent [] = []"
| "filters_sent (TaskFindMany a # cs) = Some (fa_where a) # filters_sent cs"
| "filters_sent (TaskCount w # cs) = w # filters_sent cs"
| "filters_sent (c # cs) = filters_sent cs"

section \<open>Updating a task\<close>

text \<open>
  \<open>updateTask\<close> of part_006: each of the six fields is written as \<open>field || existing.field\<close>.
  \<open>new Date(v)\<close> on a value of the body is the language's and is the parameter \<open>DV\<close>, with
  \<open>None\<close> for an Invalid Date.
\<close>

definition updateTask_p006 ::
  "(string \<Rightarrow> jsnum) \<Rightarrow> (jsval \<Rightarrow> int option) \<Rightarrow> request \<Rightarrow> store \<Rightarrow> response \<times> store" where
  "updateTask_p006 N DV req st =
     (let id = map_of (req_params req) ''id'';
          title = field_of (req_body req) ''title'';
          description = field_of (req_body req) ''description'';
          dueDate = field_of (req_body req) ''dueDate'';
          status = field_of (req_body req) ''status'';
          recurring = field_of (req_body req) ''recurring'';
          priority = field_of (req_body req) ''priority''
      in case task_findUnique (Number_of N id) st of
           (Inl e, st1) \<Rightarrow> (\<lparr>status = 500, payload = ErrorJson ''Failed to update task''\<rparr>, st1)
         | (Inr None, st1) \<Rightarrow> (\<lparr>status = 404, payload = ErrorJson ''Task not found''\<rparr>, st1)
         | (Inr (Some existingTask), st1) \<Rightarrow>
             (case task_update (Number_of N id)
                     [(''title'', js_or title (column ''title'' existingTask)),
                      (''description'', js_or description (column ''description'' existingTask)),
                      (''dueDate'', if truthy dueDate then JDate (DV dueDate)
                                    else column ''dueDate'' existingTask),
                      (''status'', js_or status (column ''status'' existingTask)),
                      (''recurring'', js_or recurring (column ''recurring'' existingTask)),
                      (''priority'', js_or priority (column ''priority'' existingTask))] st1 of
                (Inl e, st2) \<Rightarrow> (\<lparr>status = 500, payload = ErrorJson ''Failed to update task''\<rparr>, st2)
              | (Inr updatedTask, st2) \<Rightarrow> (\<lparr>status = 200, payload = TaskJson updatedTask\<rparr>, st2)))"

text \<open>\<open>updateTask\<close> of part_005: \<open>data: { ...req.body }\<close>.\<close>

definition updateTask_p005 ::
  "(string \<Rightarrow> jsnum) \<Rightarrow> request \<Rightarrow> store \<Rightarrow> response \<times> store" where
  "updateTask_p005 N req st =
     (let id = map_of (req_params req) ''id''
      in case task_findUnique (Number_of N id) st of
           (Inl e, st1) \<Rightarrow> (\<lparr>status = 500, payload = ErrorJson ''Failed to update task''\<rparr>, st1)
         | (Inr None, st1) \<Rightarrow> (\<lparr>status = 404, payload = ErrorJson ''Task not found''\<rparr>, st1)
         | (Inr (Some existingTask), st1) \<Rightarrow>
             (case task_update (Number_of N id) (req_body req) st1 of
                (Inl e, st2) \<Rightarrow> (\<lparr>status = 500, payload = ErrorJson ''Failed to update task''\<rparr>, st2)
              | (Inr updatedTask, st2) \<Rightarrow> (\<lparr>status = 200, payload = TaskJson updatedTask\<rparr>, st2)))"

section \<open>Token codec\<close>

text \<open>
  Modelled from the spec: the token library behind \<open>jwt.sign\<close> and \<open>jwt.verify\<close> is not
  among the sources. A token encodes the two claims, the time of issuance and the time of
  expiry, and carries a signature; a string that cannot be decoded is a token too.
\<close>

datatype token = Unreadable string | Token decoded nat nat string

text \<open>Modelled from the spec: the fixed expiry offset of the token library's \<open>issue\<close>, one hour in seconds.\<close>

definition expiry_offset :: nat where
  "expiry_offset = 3600"

text \<open>
  Modelled from the spec: \<open>issue(userId, role)\<close> of the token library, which encodes the
  two claims plus issuance and the expiry one hour later and signs with the process
  secret. The signing function \<open>mac\<close> and the clock \<open>now\<close> (in seconds) are parameters.
\<close>

definition issue ::
  "(string \<Rightarrow> decoded \<times> nat \<times> nat \<Rightarrow> string) \<Rightarrow> string \<Rightarrow> nat \<Rightarrow> int \<Rightarrow> string \<Rightarrow> token" where
  "issue mac secret now u r =
     Token \<lparr>d_userId = u, d_role = r\<rparr> now (now + expiry_offset)
       (mac secret (\<lparr>d_userId = u, d_role = r\<rparr>, now, now + expiry_offset))"

text \<open>
  Modelled from the spec: \<open>verify(token)\<close> of the token library, which fails with
  Malformed if the token cannot be decoded, with InvalidSignature if the signature does
  not match the secret, with Expired if the current time is at or after the expiry, and
  otherwise returns exactly the two claims.
\<close>

definition verify ::
  "(string \<Rightarrow> decoded \<times> nat \<times> nat \<Rightarrow> string) \<Rightarrow> string \<Rightarrow> nat \<Rightarrow> token \<Rightarrow> token_error + decoded" where
  "verify mac secret now tok =
     (case tok of
        Unreadable s \<Rightarrow> Inl Malformed
      | Token c issuedAt expiresAt sg \<Rightarrow>
          if sg \<noteq> mac secret (c, issuedAt, expiresAt) then Inl InvalidSignature
          else if expiresAt \<le> now then Inl Expired
          else Inr c)"

section \<open>Sample data\<close>

definition alice :: user where
  "alice = \<lparr>u_id = 1, u_email = ''a@x.com'', u_password = ''h1'', u_name = ''A'', u_role = ''USER''\<rparr>"

definition root_user :: user where
  "root_user = \<lparr>u_id = 2, u_email = ''r@x.com'', u_password = ''h2'', u_name = ''R'', u_role = ''ADMIN''\<rparr>"

definition task7 :: task where
  "task7 = \<lparr>t_id = 7, t_title = ''T'', t_description = ''D'', t_dueDate = None,
            t_status = ''pending'', t_priority = ''low'', t_recurring = ''none'',
            t_userId = 1, t_createdAt = 1000, t_updatedAt = 1000\<rparr>"

text \<open>
  Rules for the store of the examples: a number \<open>Fin r\<close> with \<open>r\<close> an integer of 32 bits is
  taken for that integer and every other number is refused; the one date string of
  \<open>sample_Date\<close> is read; \<open>{ set: v }\<close> writes \<open>v\<close>; \<open>{ connect: { id: n } }\<close> gives the task
  the owner \<open>n\<close> and leaves the users as they are.
\<close>

definition int32_column :: "jsnum \<Rightarrow> int option" where
  "int32_column n =
     (case n of
        Fin r \<Rightarrow>
          if of_int \<lfloor>r\<rfloor> = r \<and> - 2147483648 \<le> r \<and> r \<le> 2147483647 then Some \<lfloor>r\<rfloor> else None
      | _ \<Rightarrow> None)"

text \<open>A reading of dates that knows one date and takes every other string as invalid.\<close>

definition sample_Date :: "string \<Rightarrow> int option" where
  "sample_Date s = (if s = ''2024-01-01'' then Some 1704067200000 else None)"

definition set_operation :: "string \<Rightarrow> (string \<times> jsval) list \<Rightarrow> jsval \<Rightarrow> jsval option" where
  "set_operation k obj cur =
     (case obj of
        [(op, v)] \<Rightarrow> if op = ''set'' then Some v else None
      | _ \<Rightarrow> None)"

definition connect_by_id ::
  "(string \<times> jsval) list \<Rightarrow> user list \<Rightarrow> int \<Rightarrow> (int \<times> user list) option" where
  "connect_by_id obj us cur =
     (case field_of obj ''connect'' of
        JObj c \<Rightarrow>
          (case field_of c ''id'' of
             JNum n \<Rightarrow> map_option (\<lambda>i. (i, us)) (int32_column n)
           | _ \<Rightarrow> None)
      | _ \<Rightarrow> None)"

definition sample_rules :: store_rules where
  "sample_rules =
     \<lparr>int_column = int32_column, date_string = sample_Date, object_value = set_operation,
      relation_write = connect_by_id\<rparr>"

definition store0 :: store where
  "store0 =
     \<lparr>users = [alice, root_user], tasks = [task7], reachable = True, calls = [],
      clock = 2000, rules = sample_rules\<rparr>"

definition as_user :: principal where
  "as_user = \<lparr>p_id = 1, p_name = ''A'', p_email = ''a@x.com'', p_role = ''USER''\<rparr>"

definition as_admin :: principal where
  "as_admin = \<lparr>p_id = 2, p_name = ''R'', p_email = ''r@x.com'', p_role = ''ADMIN''\<rparr>"

definition request_for :: "string \<Rightarrow> principal option \<Rightarrow> request" where
  "request_for i p =
     \<lparr>req_headers = [], req_params = [(''id'', i)], req_query = [], req_body = [], req_user = p\<rparr>"

definition promote_all :: "user \<Rightarrow> string" where
  "promote_all u = ''ADMIN''"

definition with_header :: "string \<Rightarrow> request" where
  "with_header h =
     \<lparr>req_headers = [(''authorization'', h)], req_params = [], req_query = [], req_body = [],
      req_user = None\<rparr>"

text \<open>
  A verifier for the examples: \<open>tokU\<close> is a token issued to user 2 when that user's role
  was USER, \<open>tokGone\<close> one issued to a user 5 who is no longer stored, \<open>tokOld\<close> one
  that has expired; anything else cannot be decoded.
\<close>

definition sample_verify :: "string \<Rightarrow> token_error + decoded" where
  "sample_verify t =
     (if t = ''tokU'' then Inr \<lparr>d_userId = 2, d_role = ''USER''\<rparr>
      else if t = ''tokGone'' then Inr \<lparr>d_userId = 5, d_role = ''USER''\<rparr>
      else if t = ''tokOld'' then Inl Expired
      else Inl Malformed)"

definition sample_hash :: "string \<Rightarrow> string" where
  "sample_hash s = CHR ''#'' # s"

definition sample_sign :: "decoded \<Rightarrow> string" where
  "sample_sign d = ''tok:'' @ d_role d"

definition signup_with :: "jsval \<Rightarrow> request" where
  "signup_with r =
     \<lparr>req_headers = [], req_params = [], req_query = [],
      req_body = [(''email'', JStr ''m@x.com''), (''password'', JStr ''p''),
                  (''name'', JStr ''M''), (''role'', r)],
      req_user = None\<rparr>"

definition role_request :: "principal \<Rightarrow> string \<Rightarrow> request" where
  "role_request p r =
     \<lparr>req_headers = [], req_params = [], req_query = [], req_body = [(''role'', JStr r)],
      req_user = Some p\<rparr>"

definition list_request :: "(string \<times> string) list \<Rightarrow> request" where
  "list_request q =
     \<lparr>req_headers = [], req_params = [], req_query = q, req_body = [], req_user = Some as_user\<rparr>"

text \<open>A store that answers every list query with one task and every count with 12.\<close>

definition sample_findMany :: "find_args \<Rightarrow> store_error + task list" where
  "sample_findMany a = Inr [task7]"

definition sample_count :: "where_clause option \<Rightarrow> store_error + nat" where
  "sample_count w = Inr 12"

text \<open>\<open>new Date\<close> on a value, for the examples: strings as \<open>sample_Date\<close> reads them.\<close>

definition sample_DateValue :: "jsval \<Rightarrow> int option" where
  "sample_DateValue v = (case v of JStr s \<Rightarrow> sample_Date s | _ \<Rightarrow> None)"

definition update_request :: "string \<Rightarrow> (string \<times> jsval) list \<Rightarrow> request" where
  "update_request i b =
     \<lparr>req_headers = [], req_params = [(''id'', i)], req_query = [], req_body = b,
      req_user = Some as_user\<rparr>"

definition sample_mac :: "string \<Rightarrow> decoded \<times> nat \<times> nat \<Rightarrow> string" where
  "sample_mac secret c = secret @ d_role (fst c)"

section \<open>Evaluation of the samples\<close>


lemma int32_column_int:
  "- 2147483648 \<le> i \<Longrightarrow> i \<le> 2147483647 \<Longrightarrow> int32_column (Fin (of_int i)) = Some i"
proof -
  assume a: "- 2147483648 \<le> i" and b: "i \<le> 2147483647"
  have "(of_int (- 2147483648) :: rat) \<le> of_int i" using a by (simp only: of_int_le_iff)
  moreover have "(of_int i :: rat) \<le> of_int 2147483647" using b by (simp only: of_int_le_iff)
  ultimately show ?thesis by (simp add: int32_column_def)
qed

lemma int32_column_7: "int32_column (Fin 7) = Some 7"
  using int32_column_int [of 7] by simp



text \<open>The language's reading of some strings.\<close>

lemma in_range_small: "\<bar>r\<bar> \<le> 18446744073709551616 \<Longrightarrow> in_range r = Fin r"
proof -
  assume a: "\<bar>r\<bar> \<le> 18446744073709551616"
  have "(18446744073709551616::rat) < 2 ^ 1024 - 2 ^ 970" by simp
  with a show ?thesis by (simp add: in_range_def)
qed


lemma js_Number_abc: "js_Number ''abc'' = NaN"
  by (simp add: js_Number_def string_to_number_def unsigned_decimal_def is_digit_def)



lemma js_Number_padded: "js_Number '' 7 '' = Fin 7"
  by (simp add: js_Number_def string_to_number_def unsigned_decimal_def is_digit_def
        digit_of_def in_range_small scale10_def)

lemma js_Number_exponent: "js_Number ''1e3'' = Fin 1000"
  by (simp add: js_Number_def string_to_number_def unsigned_decimal_def is_digit_def
        digit_of_def numeral_value_def in_range_small scale10_def)

lemma js_Number_fraction: "js_Number ''7.5'' = Fin (15 / 2)"
  by (simp add: js_Number_def string_to_number_def unsigned_decimal_def is_digit_def
        digit_of_def in_range_small scale10_def)

lemma js_Number_0: "js_Number ''0'' = Fin 0"
  by (simp add: js_Number_def string_to_number_def unsigned_decimal_def is_digit_def
        digit_of_def in_range_small scale10_def)

lemma js_Number_2: "js_Number ''2'' = Fin 2"
  by (simp add: js_Number_def string_to_number_def unsigned_decimal_def is_digit_def
        digit_of_def in_range_small scale10_def)

lemma js_Number_5: "js_Number ''5'' = Fin 5"
  by (simp add: js_Number_def string_to_number_def unsigned_decimal_def is_digit_def
        digit_of_def in_range_small scale10_def)


lemma js_Number_10: "js_Number ''10'' = Fin 10"
  by (simp add: js_Number_def string_to_number_def unsigned_decimal_def is_digit_def
        digit_of_def in_range_small scale10_def)

lemma js_Number_big: "js_Number ''99999999999'' = Fin 99999999999"
  by (simp add: js_Number_def string_to_number_def unsigned_decimal_def is_digit_def
        digit_of_def in_range_small scale10_def)


lemma js_Number_7: "js_Number ''7'' = Fin 7"
  by (simp add: js_Number_def string_to_number_def unsigned_decimal_def is_digit_def
        digit_of_def in_range_small scale10_def)

section \<open>The role guard\<close>

text \<open>
  C1. On \<open>DELETE /api/tasks/:id\<close> with a principal attached: a role other than ADMIN is
  answered by the guard with 403 and the store is left exactly as it was (no call reaches
  it); with the role ADMIN the guard hands the request, unchanged, to \<open>deleteTask\<close>, and
  the route does what \<open>deleteTask\<close> does.
\<close>

theorem checkAdmin_gates_delete:
  assumes "req_user req = Some p"
  shows "(p_role p \<noteq> ''ADMIN'' \<longrightarrow>
            checkAdmin req = Respond \<lparr>status = 403, payload = ErrorJson ''Unauthorized''\<rparr> \<and>
            delete_route N req st =
              (Respond \<lparr>status = 403, payload = ErrorJson ''Unauthorized''\<rparr>, st)) \<and>
         (p_role p = ''ADMIN'' \<longrightarrow>
            checkAdmin req = Next req \<and>
            delete_route N req st =
              (Respond (fst (deleteTask N req st)), snd (deleteTask N req st)))"
  using assms by (simp add: checkAdmin_def delete_route_def)

theorem checkAdmin_gates_delete_witness:
  "delete_route js_Number (request_for ''7'' (Some as_user)) store0 =
     (Respond \<lparr>status = 403, payload = ErrorJson ''Unauthorized''\<rparr>, store0) \<and>
   checkAdmin (request_for ''7'' (Some as_admin)) = Next (request_for ''7'' (Some as_admin)) \<and>
   replied (fst (delete_route js_Number (request_for ''7'' (Some as_admin)) store0)) = Some 200 \<and>
   tasks (snd (delete_route js_Number (request_for ''7'' (Some as_admin)) store0)) = []"
proof -
  have u: "req_user (request_for ''7'' (Some as_user)) = Some as_user"
    by (simp add: request_for_def)
  have a: "req_user (request_for ''7'' (Some as_admin)) = Some as_admin"
    by (simp add: request_for_def)
  have ru: "p_role as_user \<noteq> ''ADMIN''" by (simp add: as_user_def)
  have ra: "p_role as_admin = ''ADMIN''" by (simp add: as_admin_def)
  have d: "deleteTask js_Number (request_for ''7'' (Some as_admin)) store0 =
             (\<lparr>status = 200, payload = MessageJson ''Task deleted successfully''\<rparr>,
              store0\<lparr>tasks := [], calls := [TaskFindUnique (Fin 7), TaskDelete (Fin 7)]\<rparr>)"
    by (simp add: deleteTask_def request_for_def Number_of_def js_Number_7
          task_findUnique_def task_delete_def logged_def store0_def task7_def
          sample_rules_def int32_column_7)
  show ?thesis
    using checkAdmin_gates_delete [OF u, of js_Number store0]
          checkAdmin_gates_delete [OF a, of js_Number store0] ru ra d
    by simp
qed

section \<open>Fetching one task\<close>













section \<open>The auth middleware\<close>

lemma find_with_role:
  "find (\<lambda>u. u_id u = i) (map (\<lambda>u. u\<lparr>u_role := f u\<rparr>) xs) =
     map_option (\<lambda>u. u\<lparr>u_role := f u\<rparr>) (find (\<lambda>u. u_id u = i) xs)"
  by (induction xs) auto

lemma token_tokU: "\<not> no_token (with_header ''Bearer tokU'') \<and> bearer (with_header ''Bearer tokU'') = ''tokU''"
  by (simp add: no_token_def bearer_def with_header_def header_token_def)

text \<open>Splitting at a separator: a string without it is one piece, and the first piece ends at its first occurrence.\<close>

lemma split_on_nonempty: "split_on c s \<noteq> []"
  by (induction s) (auto split: list.splits)

lemma split_on_whole: "c \<notin> set s \<Longrightarrow> split_on c s = [s]"
  by (induction s) auto

lemma split_on_first: "c \<notin> set a \<Longrightarrow> split_on c (a @ c # rest) = a # split_on c rest"
  by (induction a) (auto split: list.splits simp: split_on_nonempty)

lemma split_on_second:
  assumes "c \<notin> set a" and "c \<notin> set t" and "r = [] \<or> hd r = c"
  shows "\<exists>more. split_on c (a @ c # t @ r) = a # t # more"
proof (cases r)
  case Nil
  with assms show ?thesis by (simp add: split_on_first split_on_whole)
next
  case (Cons x r')
  with assms(3) have "r = c # r'" by simp
  with assms(1,2) show ?thesis by (simp add: split_on_first)
qed

text \<open>
  Every header has one of two shapes: it has no space, or it is a first piece, a space,
  a second piece without a space, and a rest that is empty or begins with a space.
\<close>

lemma header_shapes:
  "CHR '' '' \<notin> set s \<or>
   (\<exists>a t r. s = a @ CHR '' '' # t @ r \<and> CHR '' '' \<notin> set a \<and> CHR '' '' \<notin> set t \<and>
            (r = [] \<or> hd r = CHR '' ''))"
proof (cases "CHR '' '' \<in> set s")
  case False
  then show ?thesis by simp
next
  case True
  define a where "a = takeWhile (\<lambda>x. x \<noteq> CHR '' '') s"
  define rest where "rest = tl (dropWhile (\<lambda>x. x \<noteq> CHR '' '') s)"
  define t where "t = takeWhile (\<lambda>x. x \<noteq> CHR '' '') rest"
  define r where "r = dropWhile (\<lambda>x. x \<noteq> CHR '' '') rest"
  from True have d: "dropWhile (\<lambda>x. x \<noteq> CHR '' '') s \<noteq> []"
    by (simp add: dropWhile_eq_Nil_conv)
  then have "hd (dropWhile (\<lambda>x. x \<noteq> CHR '' '') s) = CHR '' ''"
    using hd_dropWhile [of "\<lambda>x. x \<noteq> CHR '' ''" s] by simp
  with d have "dropWhile (\<lambda>x. x \<noteq> CHR '' '') s = CHR '' '' # rest"
    by (cases "dropWhile (\<lambda>x. x \<noteq> CHR '' '') s") (auto simp: rest_def)
  then have "s = a @ CHR '' '' # rest"
    using takeWhile_dropWhile_id [of "\<lambda>x. x \<noteq> CHR '' ''" s] by (simp add: a_def)
  moreover have "rest = t @ r"
    by (simp add: t_def r_def)
  moreover have "CHR '' '' \<notin> set a"
    by (auto simp: a_def dest: set_takeWhileD)
  moreover have "CHR '' '' \<notin> set t"
    by (auto simp: t_def dest: set_takeWhileD)
  moreover have "r = [] \<or> hd r = CHR '' ''"
    using hd_dropWhile [of "\<lambda>x. x \<noteq> CHR '' ''" rest] by (auto simp: r_def)
  ultimately show ?thesis by blast
qed

lemma header_token_second:
  assumes "CHR '' '' \<notin> set a" and "CHR '' '' \<notin> set t" and "r = [] \<or> hd r = CHR '' ''"
  shows "header_token (Some (a @ CHR '' '' # t @ r)) = Some t"
proof -
  from split_on_second [OF assms] obtain more where
    "split_on CHR '' '' (a @ CHR '' '' # t @ r) = a # t # more" by blast
  then show ?thesis by (simp add: header_token_def)
qed

lemma header_token_no_space:
  assumes "CHR '' '' \<notin> set s"
  shows "header_token (Some s) = None \<or> header_token (Some s) = Some []"
  using assms by (simp add: header_token_def split_on_whole)

text \<open>
  C2, as the claim states it, fails on the scheme: the code takes the second piece of the
  header for the token, whatever the first piece is. A header \<open>Basic junk\<close> holds no
  bearer token, yet the answer is 403, not 401; and \<open>Basic tokU\<close>, with a token the
  verifier accepts, is let through.
\<close>

theorem authToken_scheme_counterexample:
  "bearer_credential (map_of (req_headers (with_header ''Basic junk'')) ''authorization'') = None \<and>
   fst (authToken sample_verify (with_header ''Basic junk'') store0) =
     Respond \<lparr>status = 403, payload = StatusText\<rparr> \<and>
   bearer_credential (map_of (req_headers (with_header ''Basic tokU'')) ''authorization'') = None \<and>
   fst (authToken sample_verify (with_header ''Basic tokU'') store0) =
     Next ((with_header ''Basic tokU'')
             \<lparr>req_user := Some \<lparr>p_id = 2, p_name = ''R'', p_email = ''r@x.com'',
                                 p_role = ''USER''\<rparr>\<rparr>)"
  by (simp add: bearer_credential_def with_header_def authToken_def no_token_def bearer_def
        header_token_def sample_verify_def user_findUnique_def store0_def alice_def
        root_user_def)

text \<open>
  C2, amended. What \<open>authToken\<close> (auth.js) answers is decided by the shape of the
  Authorization header, the scheme word not being looked at. Without a header, or with a
  header that has no space, the answer is 401 and the store is not touched. Otherwise the
  token is the piece \<open>t\<close> between the first space and the next one (or the end): if it is
  empty the answer is 401; if it is not, the answer is never 401, and it is 403 when the
  verifier rejects \<open>t\<close>, for whatever reason, and 403 when the verifier accepts \<open>t\<close> and the
  store has no user with the decoded id.
\<close>

theorem authToken_status_by_header:
  "(map_of (req_headers req) ''authorization'' = None \<longrightarrow>
      authToken V req st = (Respond \<lparr>status = 401, payload = StatusText\<rparr>, st)) \<and>
   (map_of (req_headers req) ''authorization'' = Some s \<and> CHR '' '' \<notin> set s \<longrightarrow>
      authToken V req st = (Respond \<lparr>status = 401, payload = StatusText\<rparr>, st)) \<and>
   (map_of (req_headers req) ''authorization'' = Some (a @ CHR '' '' # t @ r) \<and>
    CHR '' '' \<notin> set a \<and> CHR '' '' \<notin> set t \<and> (r = [] \<or> hd r = CHR '' '') \<longrightarrow>
      (t = [] \<longrightarrow>
         authToken V req st = (Respond \<lparr>status = 401, payload = StatusText\<rparr>, st)) \<and>
      (t \<noteq> [] \<longrightarrow> replied (fst (authToken V req st)) \<noteq> Some 401) \<and>
      (t \<noteq> [] \<and> V t = Inl e \<longrightarrow>
         fst (authToken V req st) = Respond \<lparr>status = 403, payload = StatusText\<rparr>) \<and>
      (t \<noteq> [] \<and> V t = Inr d \<and> find (\<lambda>u. u_id u = d_userId d) (users st) = None \<longrightarrow>
         fst (authToken V req st) = Respond \<lparr>status = 403, payload = StatusText\<rparr>))"
proof (intro conjI impI)
  assume "map_of (req_headers req) ''authorization'' = None"
  then show "authToken V req st = (Respond \<lparr>status = 401, payload = StatusText\<rparr>, st)"
    by (simp add: authToken_def no_token_def header_token_def)
next
  assume "map_of (req_headers req) ''authorization'' = Some s \<and> CHR '' '' \<notin> set s"
  then have "no_token req"
    using header_token_no_space [of s] by (simp add: no_token_def)
  then show "authToken V req st = (Respond \<lparr>status = 401, payload = StatusText\<rparr>, st)"
    by (simp add: authToken_def)
next
  assume h: "map_of (req_headers req) ''authorization'' = Some (a @ CHR '' '' # t @ r) \<and>
    CHR '' '' \<notin> set a \<and> CHR '' '' \<notin> set t \<and> (r = [] \<or> hd r = CHR '' '')"
  then have tok: "header_token (map_of (req_headers req) ''authorization'') = Some t"
    by (simp add: header_token_second)
  show "authToken V req st = (Respond \<lparr>status = 401, payload = StatusText\<rparr>, st)" if "t = []"
    using tok that by (simp add: authToken_def no_token_def)
  show "replied (fst (authToken V req st)) \<noteq> Some 401" if "t \<noteq> []"
    using tok that
    by (auto simp: authToken_def no_token_def bearer_def user_findUnique_def
             split: sum.splits option.splits)
  show "fst (authToken V req st) = Respond \<lparr>status = 403, payload = StatusText\<rparr>"
    if "t \<noteq> [] \<and> V t = Inl e"
    using tok that by (simp add: authToken_def no_token_def bearer_def)
  show "fst (authToken V req st) = Respond \<lparr>status = 403, payload = StatusText\<rparr>"
    if "t \<noteq> [] \<and> V t = Inr d \<and> find (\<lambda>u. u_id u = d_userId d) (users st) = None"
    using tok that by (simp add: authToken_def no_token_def bearer_def user_findUnique_def)
qed

theorem authToken_status_by_header_witness:
  "authToken sample_verify (request_for ''7'' None) store0 =
     (Respond \<lparr>status = 401, payload = StatusText\<rparr>, store0) \<and>
   authToken sample_verify (with_header ''Bearer'') store0 =
     (Respond \<lparr>status = 401, payload = StatusText\<rparr>, store0) \<and>
   authToken sample_verify (with_header ''Bearer  tokU'') store0 =
     (Respond \<lparr>status = 401, payload = StatusText\<rparr>, store0) \<and>
   fst (authToken sample_verify (with_header ''Bearer junk'') store0) =
     Respond \<lparr>status = 403, payload = StatusText\<rparr> \<and>
   fst (authToken sample_verify (with_header ''Bearer tokOld'') store0) =
     Respond \<lparr>status = 403, payload = StatusText\<rparr> \<and>
   fst (authToken sample_verify (with_header ''Bearer tokGone'') store0) =
     Respond \<lparr>status = 403, payload = StatusText\<rparr> \<and>
   replied (fst (authToken sample_verify (with_header ''Bearer tokU'') store0)) \<noteq> Some 401"
proof -
  have h0: "map_of (req_headers (request_for ''7'' None)) ''authorization'' = None"
    by (simp add: request_for_def)
  have h1: "map_of (req_headers (with_header ''Bearer'')) ''authorization'' = Some ''Bearer'' \<and>
            CHR '' '' \<notin> set ''Bearer''"
    by (simp add: with_header_def)
  have h2: "map_of (req_headers (with_header ''Bearer  tokU'')) ''authorization'' =
              Some (''Bearer'' @ CHR '' '' # [] @ '' tokU'') \<and>
            CHR '' '' \<notin> set ''Bearer'' \<and> CHR '' '' \<notin> set [] \<and>
            ('' tokU'' = [] \<or> hd '' tokU'' = CHR '' '')"
    by (simp add: with_header_def)
  have h3: "map_of (req_headers (with_header ''Bearer junk'')) ''authorization'' =
              Some (''Bearer'' @ CHR '' '' # ''junk'' @ []) \<and>
            CHR '' '' \<notin> set ''Bearer'' \<and> CHR '' '' \<notin> set ''junk'' \<and>
            ([] = [] \<or> hd [] = CHR '' '')"
    by (simp add: with_header_def)
  have h4: "map_of (req_headers (with_header ''Bearer tokOld'')) ''authorization'' =
              Some (''Bearer'' @ CHR '' '' # ''tokOld'' @ []) \<and>
            CHR '' '' \<notin> set ''Bearer'' \<and> CHR '' '' \<notin> set ''tokOld'' \<and>
            ([] = [] \<or> hd [] = CHR '' '')"
    by (simp add: with_header_def)
  have h5: "map_of (req_headers (with_header ''Bearer tokGone'')) ''authorization'' =
              Some (''Bearer'' @ CHR '' '' # ''tokGone'' @ []) \<and>
            CHR '' '' \<notin> set ''Bearer'' \<and> CHR '' '' \<notin> set ''tokGone'' \<and>
            ([] = [] \<or> hd [] = CHR '' '')"
    by (simp add: with_header_def)
  have h6: "map_of (req_headers (with_header ''Bearer tokU'')) ''authorization'' =
              Some (''Bearer'' @ CHR '' '' # ''tokU'' @ []) \<and>
            CHR '' '' \<notin> set ''Bearer'' \<and> CHR '' '' \<notin> set ''tokU'' \<and>
            ([] = [] \<or> hd [] = CHR '' '')"
    by (simp add: with_header_def)
  have v1: "sample_verify ''junk'' = Inl Malformed"
    by (simp add: sample_verify_def)
  have v2: "sample_verify ''tokOld'' = Inl Expired"
    by (simp add: sample_verify_def)
  have v3: "sample_verify ''tokGone'' = Inr \<lparr>d_userId = 5, d_role = ''USER''\<rparr>"
    by (simp add: sample_verify_def)
  have gone: "find (\<lambda>u. u_id u = d_userId \<lparr>d_userId = 5, d_role = ''USER''\<rparr>) (users store0) = None"
    by (simp add: store0_def alice_def root_user_def)
  have w0: "authToken sample_verify (request_for ''7'' None) store0 =
     (Respond \<lparr>status = 401, payload = StatusText\<rparr>, store0)"
    using authToken_status_by_header [of "request_for ''7'' None" sample_verify store0] h0
    by blast
  have w1: "authToken sample_verify (with_header ''Bearer'') store0 =
     (Respond \<lparr>status = 401, payload = StatusText\<rparr>, store0)"
    using authToken_status_by_header
            [of "with_header ''Bearer''" sample_verify store0 "''Bearer''"] h1
    by blast
  have w2: "authToken sample_verify (with_header ''Bearer  tokU'') store0 =
     (Respond \<lparr>status = 401, payload = StatusText\<rparr>, store0)"
    using authToken_status_by_header
            [of "with_header ''Bearer  tokU''" sample_verify store0 _ "''Bearer''" "[]" "'' tokU''"]
          h2
    by blast
  have w3: "fst (authToken sample_verify (with_header ''Bearer junk'') store0) =
     Respond \<lparr>status = 403, payload = StatusText\<rparr>"
    using authToken_status_by_header
            [of "with_header ''Bearer junk''" sample_verify store0 _ "''Bearer''" "''junk''" "[]"
                Malformed]
          h3 v1
    by simp
  have w4: "fst (authToken sample_verify (with_header ''Bearer tokOld'') store0) =
     Respond \<lparr>status = 403, payload = StatusText\<rparr>"
    using authToken_status_by_header
            [of "with_header ''Bearer tokOld''" sample_verify store0 _ "''Bearer''" "''tokOld''"
                "[]" Expired]
          h4 v2
    by simp
  have w5: "fst (authToken sample_verify (with_header ''Bearer tokGone'') store0) =
     Respond \<lparr>status = 403, payload = StatusText\<rparr>"
    using authToken_status_by_header
            [of "with_header ''Bearer tokGone''" sample_verify store0 _ "''Bearer''"
                "''tokGone''" "[]" _ "\<lparr>d_userId = 5, d_role = ''USER''\<rparr>"]
          h5 v3 gone
    by simp
  have w6: "replied (fst (authToken sample_verify (with_header ''Bearer tokU'') store0)) \<noteq> Some 401"
    using authToken_status_by_header
            [of "with_header ''Bearer tokU''" sample_verify store0 _ "''Bearer''" "''tokU''" "[]"]
          h6
    by simp
  from w0 w1 w2 w3 w4 w5 w6 show ?thesis by simp
qed

text \<open>
  C3, as the claim states it, fails on \<open>authToken\<close> of profile.js, which attaches the
  stored record: for a token issued to user 2 with the role USER, and a store in which
  user 2 is an ADMIN by now, the principal's role is ADMIN, the store's value.
\<close>

theorem authToken_profile_role_counterexample:
  "sample_verify (bearer (with_header ''Bearer tokU'')) = Inr \<lparr>d_userId = 2, d_role = ''USER''\<rparr> \<and>
   fst (authToken_profile sample_verify (with_header ''Bearer tokU'') store0) =
     Next ((with_header ''Bearer tokU'')
             \<lparr>req_user := Some \<lparr>p_id = 2, p_name = ''R'', p_email = ''r@x.com'',
                                 p_role = ''ADMIN''\<rparr>\<rparr>)"
  using token_tokU
  by (simp add: authToken_profile_def sample_verify_def user_findUnique_def store0_def
        alice_def root_user_def)

text \<open>
  C3, amended. Whenever \<open>authToken\<close> of auth.js (the middleware of the task routes) lets
  a request through, the principal it attaches has id, name and email of the user record
  found under the decoded id and the role of the decoded token; and what the middleware
  answers does not depend on the roles the store holds.
\<close>

theorem authToken_principal_role_from_token:
  "(fst (authToken V req st) = Next req' \<longrightarrow>
      (\<exists>d u. \<not> no_token req \<and> V (bearer req) = Inr d \<and>
             find (\<lambda>u. u_id u = d_userId d) (users st) = Some u \<and>
             req' = req\<lparr>req_user := Some \<lparr>p_id = u_id u, p_name = u_name u,
                                          p_email = u_email u, p_role = d_role d\<rparr>\<rparr>)) \<and>
   fst (authToken V req (with_roles f st)) = fst (authToken V req st)"
  by (auto simp: authToken_def user_findUnique_def with_roles_def find_with_role
           split: sum.splits option.splits if_splits)

theorem authToken_principal_role_from_token_witness:
  "fst (authToken sample_verify (with_header ''Bearer tokU'') store0) =
     Next ((with_header ''Bearer tokU'')
             \<lparr>req_user := Some \<lparr>p_id = 2, p_name = ''R'', p_email = ''r@x.com'',
                                 p_role = ''USER''\<rparr>\<rparr>) \<and>
   (\<exists>d u. sample_verify (bearer (with_header ''Bearer tokU'')) = Inr d \<and>
          find (\<lambda>u. u_id u = d_userId d) (users store0) = Some u \<and>
          u_role u = ''ADMIN'' \<and> d_role d = ''USER'') \<and>
   fst (authToken sample_verify (with_header ''Bearer tokU'') (with_roles promote_all store0)) =
     fst (authToken sample_verify (with_header ''Bearer tokU'') store0)"
proof -
  have ev: "fst (authToken sample_verify (with_header ''Bearer tokU'') store0) =
     Next ((with_header ''Bearer tokU'')
             \<lparr>req_user := Some \<lparr>p_id = 2, p_name = ''R'', p_email = ''r@x.com'',
                                 p_role = ''USER''\<rparr>\<rparr>)"
    using token_tokU
    by (simp add: authToken_def sample_verify_def user_findUnique_def store0_def
          alice_def root_user_def)
  have v: "sample_verify (bearer (with_header ''Bearer tokU'')) = Inr \<lparr>d_userId = 2, d_role = ''USER''\<rparr>"
    using token_tokU by (simp add: sample_verify_def)
  have u: "find (\<lambda>u. u_id u = d_userId \<lparr>d_userId = 2, d_role = ''USER''\<rparr>) (users store0) = Some root_user"
    by (simp add: store0_def alice_def root_user_def)
  have r: "u_role root_user = ''ADMIN''"
    by (simp add: root_user_def)
  from v u r have ex: "\<exists>d u. sample_verify (bearer (with_header ''Bearer tokU'')) = Inr d \<and>
          find (\<lambda>u. u_id u = d_userId d) (users store0) = Some u \<and>
          u_role u = ''ADMIN'' \<and> d_role d = ''USER''"
    by (intro exI [of _ "\<lparr>d_userId = 2, d_role = ''USER''\<rparr>"] exI [of _ root_user]) simp
  show ?thesis
    using authToken_principal_role_from_token
            [of sample_verify "with_header ''Bearer tokU''" store0 _ promote_all] ev ex
    by simp
qed

section \<open>Who may set a role\<close>

lemma set_role_field:
  "set_user_field ''role'' v u1 = Inr u \<Longrightarrow> v \<noteq> JUndefined \<Longrightarrow> JStr (u_role u) = v"
  by (cases v) auto

lemma set_role_last:
  "set_user_fields [(k1, a), (k2, b), (k3, c), (''role'', v)] u0 = Inr u \<Longrightarrow>
     v \<noteq> JUndefined \<Longrightarrow> JStr (u_role u) = v"
  by (auto split: sum.splits dest: set_role_field)

lemma js_or_defined: "js_or r (JStr ''USER'') \<noteq> JUndefined"
  by (cases r) (auto simp: js_or_def)

lemma user_create_fields:
  "user_create data st = (Inr u, st') \<Longrightarrow>
     users st' = users st @ [u] \<and> (\<exists>u0. set_user_fields data u0 = Inr u)"
  by (auto simp: user_create_def logged_def split: if_splits jsval.splits sum.splits)

lemma user_create_failed:
  "user_create data st = (Inl e, st') \<Longrightarrow> users st' = users st"
  by (auto simp: user_create_def logged_def split: if_splits jsval.splits sum.splits)

lemma find_replaced:
  "find (\<lambda>x. u_id x = i) xs = Some u \<Longrightarrow> u_id u' = i \<Longrightarrow>
     find (\<lambda>x. u_id x = i) (map (\<lambda>x. if u_id x = i then u' else x) xs) = Some u'"
  by (induction xs) (auto split: if_splits)

lemma register_role:
  "users (snd (register H S req st)) = users st \<or>
   (\<exists>u. users (snd (register H S req st)) = users st @ [u] \<and>
        JStr (u_role u) = js_or (field_of (req_body req) ''role'') (JStr ''USER''))"
proof (cases "\<exists>pw u st1. field_of (req_body req) ''password'' = JStr pw \<and>
     truthy (field_of (req_body req) ''email'') \<and> truthy (JStr pw) \<and>
     truthy (field_of (req_body req) ''name'') \<and>
     user_create [(''email'', field_of (req_body req) ''email''), (''password'', JStr (H pw)),
                  (''name'', field_of (req_body req) ''name''),
                  (''role'', js_or (field_of (req_body req) ''role'') (JStr ''USER''))] st
       = (Inr u, st1)")
  case True
  then obtain pw u st1 where pw: "field_of (req_body req) ''password'' = JStr pw"
    and t: "truthy (field_of (req_body req) ''email'')" "truthy (JStr pw)"
           "truthy (field_of (req_body req) ''name'')"
    and c: "user_create [(''email'', field_of (req_body req) ''email''), (''password'', JStr (H pw)),
                  (''name'', field_of (req_body req) ''name''),
                  (''role'', js_or (field_of (req_body req) ''role'') (JStr ''USER''))] st
              = (Inr u, st1)"
    by blast
  from user_create_fields [OF c] obtain u0 where
    us: "users st1 = users st @ [u]" and
    sf: "set_user_fields [(''email'', field_of (req_body req) ''email''), (''password'', JStr (H pw)),
                  (''name'', field_of (req_body req) ''name''),
                  (''role'', js_or (field_of (req_body req) ''role'') (JStr ''USER''))] u0 = Inr u"
    by blast
  have r: "JStr (u_role u) = js_or (field_of (req_body req) ''role'') (JStr ''USER'')"
    by (rule set_role_last [OF sf js_or_defined])
  have "snd (register H S req st) = st1"
    using pw t c by (simp add: register_def Let_def)
  with us r show ?thesis by auto
next
  case False
  have "users (snd (register H S req st)) = users st"
  proof (cases "field_of (req_body req) ''password''")
    case (JStr pw)
    show ?thesis
    proof (cases "user_create [(''email'', field_of (req_body req) ''email''),
                  (''password'', JStr (H pw)), (''name'', field_of (req_body req) ''name''),
                  (''role'', js_or (field_of (req_body req) ''role'') (JStr ''USER''))] st")
      case (Pair res st1)
      show ?thesis
      proof (cases res)
        case (Inl e)
        with Pair have "users st1 = users st"
          by (simp add: user_create_failed)
        with Pair Inl JStr show ?thesis by (auto simp: register_def Let_def)
      next
        case (Inr u)
        with Pair JStr False show ?thesis by (auto simp: register_def Let_def)
      qed
    qed
  qed (simp_all add: register_def Let_def)
  then show ?thesis by simp
qed

lemma updateUserRole_persists:
  assumes "req_user req = Some p" "p_role p = ''ADMIN''" "reachable st"
    and "find (\<lambda>u. u_id u = p_id p) (users st) = Some u"
    and "field_of (req_body req) ''role'' = JStr r"
  shows "find (\<lambda>u. u_id u = p_id p) (users (snd (updateUserRole req st))) = Some (u\<lparr>u_role := r\<rparr>)"
proof -
  have i: "u_id u = p_id p"
    using assms(4) by (auto dest: find_Some_iff [THEN iffD1])
  then have "u_id (u\<lparr>u_role := r\<rparr>) = p_id p" by simp
  from find_replaced [OF assms(4) this] show ?thesis
    using assms by (simp add: updateUserRole_def user_update_def logged_def)
qed

text \<open>
  C4, as the claim states it, fails on registration: \<open>POST /api/auth/register\<close> needs no
  principal, and a body that asks for the role ADMIN gets a stored user with the role
  ADMIN and a token that carries it.
\<close>

theorem register_role_counterexample:
  "req_user (signup_with (JStr ''ADMIN'')) = None \<and>
   fst (register sample_hash sample_sign (signup_with (JStr ''ADMIN'')) store0) =
     \<lparr>status = 201, payload = TokenJson ''tok:ADMIN''\<rparr> \<and>
   users (snd (register sample_hash sample_sign (signup_with (JStr ''ADMIN'')) store0)) =
     [alice, root_user,
      \<lparr>u_id = 3, u_email = ''m@x.com'', u_password = ''#p'', u_name = ''M'', u_role = ''ADMIN''\<rparr>]"
  by (simp add: register_def signup_with_def field_of_def js_or_def user_create_def store0_def
        alice_def root_user_def next_id_def email_taken_def logged_def sample_hash_def
        sample_sign_def)

text \<open>
  C4, amended. Through \<open>POST /role\<close> (\<open>updateUserRole\<close>) a role is written only for a
  principal whose role is ADMIN: any other principal is answered 403 with the store
  untouched, and an ADMIN's request with a string role is written to the caller's own
  record. Registration is not gated: the new user gets the role the body gives, and USER
  when the body gives none; nothing else is added to the users.
\<close>

theorem role_written_for_admin_only:
  "(req_user req = Some p \<and> p_role p \<noteq> ''ADMIN'' \<longrightarrow>
      updateUserRole req st =
        (Respond \<lparr>status = 403, payload = ErrorJson ''Only admins can update roles''\<rparr>, st)) \<and>
   (req_user req = Some p \<and> users (snd (updateUserRole req st)) \<noteq> users st \<longrightarrow>
      p_role p = ''ADMIN'') \<and>
   (req_user req = Some p \<and> p_role p = ''ADMIN'' \<and> reachable st \<and>
    find (\<lambda>u. u_id u = p_id p) (users st) = Some u \<and>
    field_of (req_body req) ''role'' = JStr r \<longrightarrow>
      find (\<lambda>u. u_id u = p_id p) (users (snd (updateUserRole req st))) =
        Some (u\<lparr>u_role := r\<rparr>)) \<and>
   (users (snd (register H S req' st)) = users st \<or>
    (\<exists>n. users (snd (register H S req' st)) = users st @ [n] \<and>
         JStr (u_role n) = js_or (field_of (req_body req') ''role'') (JStr ''USER'')))"
proof (intro conjI impI)
  assume "req_user req = Some p \<and> p_role p \<noteq> ''ADMIN''"
  then show "updateUserRole req st =
        (Respond \<lparr>status = 403, payload = ErrorJson ''Only admins can update roles''\<rparr>, st)"
    by (simp add: updateUserRole_def)
next
  assume "req_user req = Some p \<and> users (snd (updateUserRole req st)) \<noteq> users st"
  then show "p_role p = ''ADMIN''"
    by (auto simp: updateUserRole_def split: if_splits)
next
  assume "req_user req = Some p \<and> p_role p = ''ADMIN'' \<and> reachable st \<and>
    find (\<lambda>u. u_id u = p_id p) (users st) = Some u \<and>
    field_of (req_body req) ''role'' = JStr r"
  then show "find (\<lambda>u. u_id u = p_id p) (users (snd (updateUserRole req st))) =
        Some (u\<lparr>u_role := r\<rparr>)"
    by (simp add: updateUserRole_persists)
next
  show "users (snd (register H S req' st)) = users st \<or>
    (\<exists>n. users (snd (register H S req' st)) = users st @ [n] \<and>
         JStr (u_role n) = js_or (field_of (req_body req') ''role'') (JStr ''USER''))"
    by (rule register_role)
qed

theorem role_written_for_admin_only_witness:
  "updateUserRole (role_request as_user ''ADMIN'') store0 =
     (Respond \<lparr>status = 403, payload = ErrorJson ''Only admins can update roles''\<rparr>, store0) \<and>
   find (\<lambda>u. u_id u = p_id as_admin)
     (users (snd (updateUserRole (role_request as_admin ''USER'') store0))) =
     Some (root_user\<lparr>u_role := ''USER''\<rparr>) \<and>
   users (snd (updateUserRole (role_request as_admin ''USER'') store0)) \<noteq> users store0"
proof -
  have a: "req_user (role_request as_user ''ADMIN'') = Some as_user \<and> p_role as_user \<noteq> ''ADMIN''"
    by (simp add: role_request_def as_user_def)
  have b: "req_user (role_request as_admin ''USER'') = Some as_admin \<and> p_role as_admin = ''ADMIN'' \<and>
      reachable store0 \<and> find (\<lambda>u. u_id u = p_id as_admin) (users store0) = Some root_user \<and>
      field_of (req_body (role_request as_admin ''USER'')) ''role'' = JStr ''USER''"
    by (simp add: role_request_def as_admin_def store0_def alice_def root_user_def field_of_def)
  have c: "users (snd (updateUserRole (role_request as_admin ''USER'') store0)) \<noteq> users store0"
    by (simp add: updateUserRole_def role_request_def as_admin_def user_update_def store0_def
          alice_def root_user_def field_of_def logged_def)
  show ?thesis
    using role_written_for_admin_only
            [of "role_request as_user ''ADMIN''" as_user store0 _ _ sample_hash sample_sign
                "signup_with JUndefined"]
          role_written_for_admin_only
            [of "role_request as_admin ''USER''" as_admin store0 root_user "''USER''"
                sample_hash sample_sign "signup_with JUndefined"]
          a b c
    by simp
qed

section \<open>The query of a task list\<close>

text \<open>
  In part_006 the sort key is looked up in \<open>orderOptions\<close>: a listed key is kept, an absent
  \<open>sortBy\<close> and any unlisted string that is not the name of an inherited property fall back
  to \<open>createdAt\<close>.
\<close>

lemma sort_field_p006:
  "(s \<in> {''dueDate'', ''createdAt'', ''status'', ''userId'', ''recurring'', ''priority''} \<longrightarrow>
      fst (fa_orderBy (list_args_p006 N D (q(''sortBy'' \<mapsto> s)))) = s) \<and>
   (s \<notin> {''dueDate'', ''createdAt'', ''status'', ''userId'', ''recurring'', ''priority''} \<and>
    s \<notin> fst ` set Object_prototype \<longrightarrow>
      fst (fa_orderBy (list_args_p006 N D (q(''sortBy'' \<mapsto> s)))) = ''createdAt'') \<and>
   (q ''sortBy'' = None \<longrightarrow> fst (fa_orderBy (list_args_p006 N D q)) = ''createdAt'')"
proof (intro conjI impI)
  assume "s \<in> {''dueDate'', ''createdAt'', ''status'', ''userId'', ''recurring'', ''priority''}"
  then show "fst (fa_orderBy (list_args_p006 N D (q(''sortBy'' \<mapsto> s)))) = s"
    by (auto simp: list_args_p006_def str_param_def read_key_def orderOptions_p006_def)
next
  assume a: "s \<notin> {''dueDate'', ''createdAt'', ''status'', ''userId'', ''recurring'', ''priority''} \<and>
    s \<notin> fst ` set Object_prototype"
  then have "map_of Object_prototype s = None"
    by (simp add: map_of_eq_None_iff)
  moreover from a have "map_of orderOptions_p006 s = None"
    by (simp add: orderOptions_p006_def)
  ultimately show "fst (fa_orderBy (list_args_p006 N D (q(''sortBy'' \<mapsto> s)))) = ''createdAt''"
    by (simp add: list_args_p006_def str_param_def read_key_def)
next
  assume "q ''sortBy'' = None"
  then show "fst (fa_orderBy (list_args_p006 N D q)) = ''createdAt''"
    by (simp add: list_args_p006_def str_param_def read_key_def orderOptions_p006_def)
qed

text \<open>
  In part_005 there is no lookup: whatever string \<open>sortBy\<close> holds is the sort field. In
  tasks.js the lookup knows three keys, so \<open>priority\<close> falls back to \<open>createdAt\<close>.
\<close>

lemma sort_field_p005:
  "fst (fa_orderBy (list_args_p005 N D (q(''sortBy'' \<mapsto> s)))) = s"
  by (simp add: list_args_p005_def str_param_def)

lemma sort_field_tasks_priority:
  "fst (fa_orderBy (list_args_tasks N (q(''sortBy'' \<mapsto> ''priority'')))) = ''createdAt''"
  by (simp add: list_args_tasks_def str_param_def read_key_def orderOptions_tasks_def
        Object_prototype_def)

text \<open>
  C5. The sort field that reaches the store, at two requests. In part_005
  \<open>sortBy=bogusField\<close> is sent to the store as it came. In part_006 \<open>sortBy=constructor\<close>
  finds the inherited property of that name, so the key sent is neither \<open>createdAt\<close> nor
  a column.
\<close>

theorem sort_field_sent_at_unlisted_keys:
  "sort_fields_sent (calls (snd (getAllTasks_p005 js_Number sample_Date sample_findMany
      sample_count (list_request [(''sortBy'', ''bogusField'')]) store0))) = [''bogusField''] \<and>
   sort_fields_sent (calls (snd (getAllTasks_p006 js_Number sample_Date sample_findMany
      sample_count (list_request [(''sortBy'', ''constructor'')]) store0))) =
     [''function Object() { [native code] }'']"
  by (simp add: getAllTasks_p005_def getAllTasks_p006_def list_request_def
       list_args_p005_def list_args_p006_def sample_findMany_def
       sample_count_def logged_def store0_def str_param_def read_key_def orderOptions_p006_def
       Object_prototype_def Let_def)

text \<open>
  The filter as the code builds it, for any search string: the clause on \<open>userId\<close> is
  always in the list, with whatever \<open>Number\<close> makes of the string; the two date clauses
  are there exactly when the string is a valid date; the status sits beside the list.
\<close>

lemma buildFilterConditions_search:
  assumes "query ''search'' = Some s" and "s \<noteq> []"
  shows "w_OR (buildFilterConditions N D query) =
           Some ([Contains ''title'' s, Contains ''description'' s, EqualsNum ''userId'' (N s),
                  Contains ''recurring'' s, Contains ''priority'' s] @
                 (case D s of None \<Rightarrow> []
                  | Some i \<Rightarrow> [EqualsDate ''dueDate'' i, EqualsDate ''createdAt'' i])) \<and>
         where_p006 N D query = buildFilterConditions N D query \<and>
         w_status (buildFilterConditions N D query) =
           (case query ''status'' of None \<Rightarrow> None | Some v \<Rightarrow> if v = [] then None else Some v)"
  using assms by (simp add: buildFilterConditions_def where_p006_def)

text \<open>
  C6. The filter that reaches the store for \<open>search=abc\<close>, a string that is neither a
  number nor a date: the list query and the count both carry the clause
  \<open>userId equals NaN\<close> among the four text clauses.
\<close>

theorem filter_sent_at_text_search:
  "filters_sent (calls (snd (getAllTasks_p005 js_Number sample_Date sample_findMany
      sample_count (list_request [(''search'', ''abc'')]) store0))) =
    [Some \<lparr>w_status = None,
           w_OR = Some [Contains ''title'' ''abc'', Contains ''description'' ''abc'',
                        EqualsNum ''userId'' NaN, Contains ''recurring'' ''abc'',
                        Contains ''priority'' ''abc'']\<rparr>,
     Some \<lparr>w_status = None,
           w_OR = Some [Contains ''title'' ''abc'', Contains ''description'' ''abc'',
                        EqualsNum ''userId'' NaN, Contains ''recurring'' ''abc'',
                        Contains ''priority'' ''abc'']\<rparr>] \<and>
   filters_sent (calls (snd (getAllTasks_p006 js_Number sample_Date sample_findMany
      sample_count (list_request [(''search'', ''abc'')]) store0))) =
   filters_sent (calls (snd (getAllTasks_p005 js_Number sample_Date sample_findMany
      sample_count (list_request [(''search'', ''abc'')]) store0)))"
  by (simp add: getAllTasks_p005_def getAllTasks_p006_def list_request_def list_args_p005_def
       list_args_p006_def buildFilterConditions_def where_p006_def sample_findMany_def
       sample_count_def sample_Date_def js_Number_abc logged_def store0_def Let_def)

text \<open>
  C7, as the claim states it, fails below page 1: for \<open>page=0\<close>, \<open>limit=10\<close> the code
  skips -10 records, where \<open>max(page, 1) - 1\<close> would give a skip of 0.
\<close>

theorem skip_below_first_page_counterexample:
  "fa_skip (list_args_p005 js_Number sample_Date (map_of [(''page'', ''0''), (''limit'', ''10'')]))
     = Fin (- 10) \<and>
   Fin (- 10) \<noteq> Fin ((max 0 1 - 1) * 10)"
  by (simp add: list_args_p005_def num_param_def js_Number_0 js_Number_10 safe_def)

text \<open>Part_006 pages and filters as part_005 does; tasks.js counts without a filter.\<close>

lemma list_args_p006_pages:
  "fa_skip (list_args_p006 N D q) = fa_skip (list_args_p005 N D q) \<and>
   fa_take (list_args_p006 N D q) = fa_take (list_args_p005 N D q) \<and>
   fa_where (list_args_p006 N D q) = fa_where (list_args_p005 N D q)"
  by (simp add: list_args_p006_def list_args_p005_def where_p006_def buildFilterConditions_def)

lemma getAllTasks_tasks_counts_all:
  "FM (list_args_tasks N (map_of (req_query req))) = Inr found \<Longrightarrow>
     calls (snd (getAllTasks_tasks N FM CT req st)) =
       calls st @ [TaskFindMany (list_args_tasks N (map_of (req_query req))), TaskCount None]"
  by (simp add: getAllTasks_tasks_def Let_def logged_def split: sum.splits)

text \<open>The arithmetic of the handlers on integers that doubles hold exactly.\<close>

lemma safe_of_int: "\<bar>i\<bar> \<le> 9007199254740992 \<Longrightarrow> safe (of_int i)"
proof -
  assume a: "\<bar>i\<bar> \<le> 9007199254740992"
  have "\<bar>of_int i :: rat\<bar> = of_int \<bar>i\<bar>" by simp
  also have "\<dots> \<le> of_int 9007199254740992" using a by (simp only: of_int_le_iff)
  finally show ?thesis by (simp add: safe_def)
qed

lemma quotient_bounds:
  assumes "l \<noteq> 0"
  shows "\<bar>fst (quotient_of (of_int n / of_int l))\<bar> \<le> \<bar>n\<bar> \<and>
         snd (quotient_of (of_int n / of_int l)) \<le> \<bar>l\<bar>"
proof -
  obtain a b where ab: "quotient_of (of_int n / of_int l) = (a, b)"
    by (cases "quotient_of (of_int n / of_int l)")
  have b: "0 < b" using ab by (rule quotient_of_denom_pos)
  have c: "coprime a b" using ab by (rule quotient_of_coprime)
  have "(of_int n / of_int l :: rat) = of_int a / of_int b"
    using ab by (rule quotient_of_div)
  then have "(of_int n * of_int b :: rat) = of_int a * of_int l"
    using assms b by (simp add: frac_eq_eq)
  then have "(of_int (n * b) :: rat) = of_int (a * l)" by simp
  then have e: "n * b = a * l" by (simp only: of_int_eq_iff)
  have "b dvd a * l" using e by (metis dvd_triv_right)
  then have "b dvd l" using c by (simp add: coprime_commute coprime_dvd_mult_right_iff)
  then have bl: "b \<le> \<bar>l\<bar>" using assms b by (metis abs_of_pos dvd_imp_le_int)
  have "a dvd n * b" using e by (metis dvd_triv_left)
  then have an: "a dvd n" using c by (simp add: coprime_dvd_mult_left_iff)
  have "\<bar>a\<bar> \<le> \<bar>n\<bar>"
  proof (cases "n = 0")
    case True
    with e assms have "a = 0" by simp
    then show ?thesis by simp
  next
    case False
    with an show ?thesis by (simp add: dvd_imp_le_int)
  qed
  with bl ab show ?thesis by simp
qed

lemma js_ceil_div:
  assumes "\<bar>n\<bar> < 9007199254740992" and "\<bar>l\<bar> \<le> 9007199254740992" and "l \<noteq> 0"
  shows "js_ceil (js_div (Fin (of_int n)) (Fin (of_int l))) =
           Fin (of_int \<lceil>of_int n / of_int l :: rat\<rceil>)"
proof -
  have sn: "safe (of_int n)" using assms(1) by (simp add: safe_of_int)
  have sl: "safe (of_int l)" using assms(2) by (simp add: safe_of_int)
  have "small_fraction (of_int n / of_int l)"
    using quotient_bounds [OF assms(3), of n] assms(1,2) by (simp add: small_fraction_def)
  with sn sl assms(3) show ?thesis by simp
qed

lemma js_skip:
  assumes "\<bar>p\<bar> \<le> 9007199254740991" and "\<bar>l\<bar> \<le> 9007199254740991"
  shows "js_mul (js_sub (Fin (of_int p)) (Fin 1)) (Fin (of_int l)) = Fin (of_int ((p - 1) * l))"
proof -
  have "safe (of_int p)" using assms(1) by (simp add: safe_of_int)
  moreover have "safe 1" by (simp add: safe_def)
  moreover have "safe (of_int (p - 1))" using assms(1) by (simp add: safe_of_int del: of_int_diff)
  moreover have "safe (of_int l)" using assms(2) by (simp add: safe_of_int)
  ultimately show ?thesis by simp
qed

text \<open>
  C7, amended. Let \<open>Number(page)\<close> and \<open>Number(limit)\<close> be integers \<open>p\<close> and \<open>l\<close> of magnitude
  at most \<open>2^53 - 1\<close> (1 and 10 when the parameters are absent). Then \<open>getAllTasks\<close>, of
  part_005, of part_006 and of tasks.js alike, asks the store to skip the double nearest
  to \<open>(p - 1) * l\<close>, which is \<open>(p - 1) * l\<close> itself up to \<open>2^53\<close>, and to take \<open>l\<close>, with no
  clamping of the page. Part_005 and part_006 then count with the filter of the list
  query, tasks.js counts all tasks; and when both calls succeed, \<open>l\<close> is not zero and the
  count is below \<open>2^53\<close>, the handler reports page \<open>p\<close> and
  \<open>totalPages = ceil(totalTasks / l)\<close> for the count it made.
\<close>

theorem getAllTasks_pagination:
  assumes "num_param N 1 (map_of (req_query req) ''page'') = Fin (of_int p)"
    and "num_param N 10 (map_of (req_query req) ''limit'') = Fin (of_int l)"
    and "\<bar>p\<bar> \<le> 9007199254740991" and "\<bar>l\<bar> \<le> 9007199254740991"
  shows "fa_skip (list_args_p005 N D (map_of (req_query req))) = Fin (of_int ((p - 1) * l)) \<and>
         fa_take (list_args_p005 N D (map_of (req_query req))) = Fin (of_int l) \<and>
         fa_skip (list_args_p006 N D (map_of (req_query req))) = Fin (of_int ((p - 1) * l)) \<and>
         fa_take (list_args_p006 N D (map_of (req_query req))) = Fin (of_int l) \<and>
         fa_skip (list_args_tasks N (map_of (req_query req))) = Fin (of_int ((p - 1) * l)) \<and>
         fa_take (list_args_tasks N (map_of (req_query req))) = Fin (of_int l) \<and>
         (map_of (req_query req) ''page'' = None \<longrightarrow> p = 1) \<and>
         (map_of (req_query req) ''limit'' = None \<longrightarrow> l = 10) \<and>
         (FM (list_args_p005 N D (map_of (req_query req))) = Inr found \<and>
          CT (Some (fa_where (list_args_p005 N D (map_of (req_query req))))) = Inr n \<and>
          l \<noteq> 0 \<and> n < 9007199254740992 \<longrightarrow>
            getAllTasks_p005 N D FM CT req st =
              (\<lparr>status = 200,
                payload = TaskListJson found (Fin (of_int p))
                            (Fin (of_int \<lceil>of_int (int n) / of_int l :: rat\<rceil>)) n\<rparr>,
               st\<lparr>calls := calls st @
                  [TaskFindMany (list_args_p005 N D (map_of (req_query req))),
                   TaskCount (Some (fa_where (list_args_p005 N D (map_of (req_query req)))))]\<rparr>)) \<and>
         (FM (list_args_p006 N D (map_of (req_query req))) = Inr found \<and>
          CT (Some (fa_where (list_args_p006 N D (map_of (req_query req))))) = Inr n \<and>
          l \<noteq> 0 \<and> n < 9007199254740992 \<longrightarrow>
            getAllTasks_p006 N D FM CT req st =
              (\<lparr>status = 200,
                payload = TaskListJson found (Fin (of_int p))
                            (Fin (of_int \<lceil>of_int (int n) / of_int l :: rat\<rceil>)) n\<rparr>,
               st\<lparr>calls := calls st @
                  [TaskFindMany (list_args_p006 N D (map_of (req_query req))),
                   TaskCount (Some (fa_where (list_args_p006 N D (map_of (req_query req)))))]\<rparr>)) \<and>
         (FM (list_args_tasks N (map_of (req_query req))) = Inr found \<and> CT None = Inr n \<and>
          l \<noteq> 0 \<and> n < 9007199254740992 \<longrightarrow>
            getAllTasks_tasks N FM CT req st =
              (\<lparr>status = 200,
                payload = TaskListJson found (Fin (of_int p))
                            (Fin (of_int \<lceil>of_int (int n) / of_int l :: rat\<rceil>)) n\<rparr>,
               st\<lparr>calls := calls st @
                  [TaskFindMany (list_args_tasks N (map_of (req_query req))), TaskCount None]\<rparr>))"
proof -
  have skip: "js_mul (js_sub (Fin (of_int p)) (Fin 1)) (Fin (of_int l)) = Fin (of_int ((p - 1) * l))"
    using assms(3,4) by (rule js_skip)
  have pages: "js_ceil (js_div (Fin (of_nat n)) (Fin (of_int l))) =
                 Fin (of_int \<lceil>of_int (int n) / of_int l :: rat\<rceil>)"
    if "l \<noteq> 0" and "n < 9007199254740992"
  proof -
    have "\<bar>int n\<bar> < 9007199254740992" using that(2) by simp
    moreover have "\<bar>l\<bar> \<le> 9007199254740992" using assms(4) by simp
    ultimately show ?thesis using js_ceil_div [of "int n" l] that(1) by simp
  qed
  have d1: "map_of (req_query req) ''page'' = None \<longrightarrow> p = 1"
    using assms(1) by (auto simp: num_param_def)
  have d2: "map_of (req_query req) ''limit'' = None \<longrightarrow> l = 10"
    using assms(2) by (auto simp: num_param_def)
  have a5: "fa_skip (list_args_p005 N D (map_of (req_query req))) = Fin (of_int ((p - 1) * l)) \<and>
            fa_take (list_args_p005 N D (map_of (req_query req))) = Fin (of_int l)"
    using assms(1,2) skip by (simp add: list_args_p005_def)
  have a6: "fa_skip (list_args_p006 N D (map_of (req_query req))) = Fin (of_int ((p - 1) * l)) \<and>
            fa_take (list_args_p006 N D (map_of (req_query req))) = Fin (of_int l)"
    using a5 by (simp add: list_args_p006_pages)
  have a0: "fa_skip (list_args_tasks N (map_of (req_query req))) = Fin (of_int ((p - 1) * l)) \<and>
            fa_take (list_args_tasks N (map_of (req_query req))) = Fin (of_int l)"
    using assms(1,2) skip by (simp add: list_args_tasks_def)
  have w5: "fa_where (list_args_p005 N D (map_of (req_query req))) =
              buildFilterConditions N D (map_of (req_query req))"
    by (simp add: list_args_p005_def)
  have w6: "fa_where (list_args_p006 N D (map_of (req_query req))) =
              where_p006 N D (map_of (req_query req))"
    by (simp add: list_args_p006_def)
  have r5: "getAllTasks_p005 N D FM CT req st =
              (\<lparr>status = 200,
                payload = TaskListJson found (Fin (of_int p))
                            (Fin (of_int \<lceil>of_int (int n) / of_int l :: rat\<rceil>)) n\<rparr>,
               st\<lparr>calls := calls st @
                  [TaskFindMany (list_args_p005 N D (map_of (req_query req))),
                   TaskCount (Some (fa_where (list_args_p005 N D (map_of (req_query req)))))]\<rparr>)"
    if "FM (list_args_p005 N D (map_of (req_query req))) = Inr found \<and>
        CT (Some (fa_where (list_args_p005 N D (map_of (req_query req))))) = Inr n \<and>
        l \<noteq> 0 \<and> n < 9007199254740992"
    using that assms(1,2) pages
    by (simp add: getAllTasks_p005_def Let_def logged_def w5)
  have r6: "getAllTasks_p006 N D FM CT req st =
              (\<lparr>status = 200,
                payload = TaskListJson found (Fin (of_int p))
                            (Fin (of_int \<lceil>of_int (int n) / of_int l :: rat\<rceil>)) n\<rparr>,
               st\<lparr>calls := calls st @
                  [TaskFindMany (list_args_p006 N D (map_of (req_query req))),
                   TaskCount (Some (fa_where (list_args_p006 N D (map_of (req_query req)))))]\<rparr>)"
    if "FM (list_args_p006 N D (map_of (req_query req))) = Inr found \<and>
        CT (Some (fa_where (list_args_p006 N D (map_of (req_query req))))) = Inr n \<and>
        l \<noteq> 0 \<and> n < 9007199254740992"
    using that assms(1,2) pages
    by (simp add: getAllTasks_p006_def Let_def logged_def w6)
  have r0: "getAllTasks_tasks N FM CT req st =
              (\<lparr>status = 200,
                payload = TaskListJson found (Fin (of_int p))
                            (Fin (of_int \<lceil>of_int (int n) / of_int l :: rat\<rceil>)) n\<rparr>,
               st\<lparr>calls := calls st @
                  [TaskFindMany (list_args_tasks N (map_of (req_query req))), TaskCount None]\<rparr>)"
    if "FM (list_args_tasks N (map_of (req_query req))) = Inr found \<and> CT None = Inr n \<and>
        l \<noteq> 0 \<and> n < 9007199254740992"
    using that assms(1,2) pages
    by (simp add: getAllTasks_tasks_def Let_def logged_def)
  from a5 a6 a0 d1 d2 r5 r6 r0 show ?thesis by blast
qed

theorem getAllTasks_pagination_witness:
  "fa_skip (list_args_p005 js_Number sample_Date
      (map_of (req_query (list_request [(''page'', ''2''), (''limit'', ''5'')])))) = Fin 5 \<and>
   fa_take (list_args_p006 js_Number sample_Date
      (map_of (req_query (list_request [(''page'', ''2''), (''limit'', ''5'')])))) = Fin 5 \<and>
   fst (getAllTasks_p005 js_Number sample_Date sample_findMany sample_count
          (list_request [(''page'', ''2''), (''limit'', ''5'')]) store0) =
     \<lparr>status = 200, payload = TaskListJson [task7] (Fin 2) (Fin 3) 12\<rparr> \<and>
   fst (getAllTasks_p006 js_Number sample_Date sample_findMany sample_count
          (list_request [(''page'', ''2''), (''limit'', ''5'')]) store0) =
     \<lparr>status = 200, payload = TaskListJson [task7] (Fin 2) (Fin 3) 12\<rparr>"
proof -
  have p: "num_param js_Number 1
             (map_of (req_query (list_request [(''page'', ''2''), (''limit'', ''5'')])) ''page'')
           = Fin (of_int 2)"
    by (simp add: num_param_def list_request_def js_Number_2)
  have l: "num_param js_Number 10
             (map_of (req_query (list_request [(''page'', ''2''), (''limit'', ''5'')])) ''limit'')
           = Fin (of_int 5)"
    by (simp add: num_param_def list_request_def js_Number_5)
  have c: "\<lceil>12 / (5::rat)\<rceil> = 3"
    by (rule ceiling_unique) simp_all
  have b: "\<bar>2::int\<bar> \<le> 9007199254740991" "\<bar>5::int\<bar> \<le> 9007199254740991"
    by simp_all
  show ?thesis
    using getAllTasks_pagination
            [OF p l b, of sample_Date sample_findMany "[task7]" sample_count 12 store0] c
    by (simp add: sample_findMany_def sample_count_def)
qed

section \<open>Partial update\<close>

lemma column_written:
  "column k (t\<lparr>t_id := i\<rparr>) = (if k = ''id'' then JNum (Fin (of_int i)) else column k t)"
  "column k (t\<lparr>t_title := s\<rparr>) = (if k = ''title'' then JStr s else column k t)"
  "column k (t\<lparr>t_description := s\<rparr>) = (if k = ''description'' then JStr s else column k t)"
  "column k (t\<lparr>t_dueDate := d\<rparr>) =
     (if k = ''dueDate'' then (case d of None \<Rightarrow> JNull | Some i \<Rightarrow> JDate (Some i)) else column k t)"
  "column k (t\<lparr>t_status := s\<rparr>) = (if k = ''status'' then JStr s else column k t)"
  "column k (t\<lparr>t_priority := s\<rparr>) = (if k = ''priority'' then JStr s else column k t)"
  "column k (t\<lparr>t_recurring := s\<rparr>) = (if k = ''recurring'' then JStr s else column k t)"
  "column k (t\<lparr>t_userId := i\<rparr>) = (if k = ''userId'' then JNum (Fin (of_int i)) else column k t)"
  "column k (t\<lparr>t_createdAt := c\<rparr>) = (if k = ''createdAt'' then JDate (Some c) else column k t)"
  "column k (t\<lparr>t_updatedAt := c\<rparr>) = (if k = ''updatedAt'' then JDate (Some c) else column k t)"
  by (simp_all add: column_def)

lemma column_not_object: "column k t \<noteq> JObj obj"
  by (simp add: column_def split: option.splits)

lemma column_not_a_column: "k \<notin> set task_columns \<Longrightarrow> column k t = JUndefined"
  by (simp add: task_columns_def column_def)

lemma set_task_field_undef: "set_task_field R k JUndefined t = Inr t"
  by (simp add: set_task_field_def)

lemma set_task_field_other:
  assumes "set_task_field R k' v t = Inr t'" and "k' \<noteq> k"
  shows "column k t' = column k t"
proof (cases "v = JUndefined")
  case True
  with assms show ?thesis by (simp add: set_task_field_def)
next
  case False
  with assms show ?thesis
    by (auto simp: set_task_field_def column_written split: if_splits jsval.splits option.splits)
qed

lemma set_task_field_same:
  assumes "set_task_field R k v t = Inr t'" and "v = column k t"
    and "k \<noteq> ''id''" and "k \<noteq> ''userId''"
  shows "column k t' = column k t"
proof (cases "k \<in> set task_columns")
  case False
  with assms show ?thesis
    by (simp add: column_not_a_column set_task_field_def)
next
  case True
  with assms(3,4) have "k = ''title'' \<or> k = ''description'' \<or> k = ''dueDate'' \<or>
             k = ''status'' \<or> k = ''priority'' \<or> k = ''recurring'' \<or>
             k = ''createdAt'' \<or> k = ''updatedAt''"
    by (simp add: task_columns_def)
  then show ?thesis
    using assms(1,2)
    by (elim disjE) (auto simp: set_task_field_def column_def split: option.splits if_splits)
qed

lemma set_task_fields_frame:
  "set_task_fields R data t = Inr t' \<Longrightarrow>
   (\<And>v. (k, v) \<in> set data \<Longrightarrow>
      v = JUndefined \<or> v = column k t0 \<and> k \<noteq> ''id'' \<and> k \<noteq> ''userId'') \<Longrightarrow>
   column k t = column k t0 \<Longrightarrow> column k t' = column k t0"
proof (induction data arbitrary: t)
  case Nil
  then show ?case by simp
next
  case (Cons kv data)
  obtain k' v where kv: "kv = (k', v)" by (cases kv)
  from Cons.prems(1) kv obtain t1 where
    s1: "set_task_field R k' v t = Inr t1" and s2: "set_task_fields R data t1 = Inr t'"
    by (auto split: sum.splits)
  have "column k t1 = column k t0"
  proof (cases "k' = k")
    case False
    with s1 Cons.prems(3) show ?thesis by (simp add: set_task_field_other)
  next
    case True
    with kv Cons.prems(2) [of v]
    have "v = JUndefined \<or> v = column k t0 \<and> k \<noteq> ''id'' \<and> k \<noteq> ''userId''" by simp
    then show ?thesis
    proof
      assume "v = JUndefined"
      with s1 Cons.prems(3) show ?thesis by (simp add: set_task_field_undef)
    next
      assume "v = column k t0 \<and> k \<noteq> ''id'' \<and> k \<noteq> ''userId''"
      with Cons.prems(3) True s1 show ?thesis
        by (metis set_task_field_same)
    qed
  qed
  with Cons.IH [OF s2] Cons.prems(2) show ?case by simp
qed

text \<open>Turning objects into plain values keeps the keys and the values that are no objects.\<close>

lemma resolve_objects_plain:
  "(\<And>obj. w = JObj obj \<Longrightarrow> k = ''user'') \<Longrightarrow>
     resolve_objects R cur ((k, w) # kvs) = map_option ((#) (k, w)) (resolve_objects R cur kvs)"
  by (cases w) simp_all

lemma resolve_objects_entries:
  "resolve_objects R cur data = Some plain \<Longrightarrow> (k, v) \<in> set plain \<Longrightarrow>
     (k, v) \<in> set data \<or> (\<exists>obj. (k, JObj obj) \<in> set data)"
proof (induction data arbitrary: plain)
  case Nil
  then show ?case by simp
next
  case (Cons kv data)
  obtain k' w where kv: "kv = (k', w)" by (cases kv)
  show ?case
  proof (cases "\<exists>obj. w = JObj obj \<and> k' \<noteq> ''user''")
    case True
    then obtain obj where w: "w = JObj obj" and u: "k' \<noteq> ''user''" by blast
    from Cons.prems(1) kv w u obtain w' rest where
      r: "resolve_objects R cur data = Some rest" and p: "plain = (k', w') # rest"
      by (auto split: option.splits)
    from Cons.prems(2) p have "(k, v) = (k', w') \<or> (k, v) \<in> set rest" by simp
    then show ?thesis
    proof
      assume "(k, v) = (k', w')"
      with kv w show ?thesis by auto
    next
      assume "(k, v) \<in> set rest"
      from Cons.IH [OF r this] show ?thesis by auto
    qed
  next
    case False
    then have "resolve_objects R cur ((k', w) # data) =
                 map_option ((#) (k', w)) (resolve_objects R cur data)"
      by (intro resolve_objects_plain) auto
    with Cons.prems(1) kv obtain rest where
      r: "resolve_objects R cur data = Some rest" and p: "plain = (k', w) # rest"
      by auto
    from Cons.prems(2) p have "(k, v) = (k', w) \<or> (k, v) \<in> set rest" by simp
    then show ?thesis
    proof
      assume "(k, v) = (k', w)"
      with kv show ?thesis by auto
    next
      assume "(k, v) \<in> set rest"
      from Cons.IH [OF r this] show ?thesis by auto
    qed
  qed
qed

lemma write_relation_frame:
  assumes "write_relation R data us t = Inr (t', us')"
    and "k = ''userId'' \<longrightarrow> (\<forall>obj. field_of data ''user'' \<noteq> JObj obj)"
  shows "column k t' = column k t"
proof (cases "\<exists>obj. field_of data ''user'' = JObj obj")
  case True
  then obtain obj where o: "field_of data ''user'' = JObj obj" by blast
  with assms(2) have "k \<noteq> ''userId''" by auto
  with assms(1) o show ?thesis
    by (auto simp: write_relation_def column_written split: if_splits option.splits)
next
  case False
  with assms(1) show ?thesis
    by (cases "field_of data ''user''") (simp_all add: write_relation_def)
qed

lemma stamp_frame: "k \<noteq> ''updatedAt'' \<Longrightarrow> column k (stamp data now t) = column k t"
  by (simp add: stamp_def column_written)

lemma update_row_frame:
  "find (\<lambda>x. t_id x = i) xs = Some t \<Longrightarrow> column k t' = column k t \<Longrightarrow>
     map (column k) (update_row i t' xs) = map (column k) xs"
  by (induction xs) (auto split: if_splits)

lemma task_update_frame:
  assumes "\<And>t v. find (\<lambda>x. t_id x = i) (tasks st) = Some t \<Longrightarrow> (k, v) \<in> set data \<Longrightarrow>
             v = JUndefined \<or> v = column k t \<and> k \<noteq> ''id'' \<and> k \<noteq> ''userId''"
    and "int_column (rules st) n = Some i"
    and "k \<noteq> ''updatedAt''"
    and "k = ''userId'' \<longrightarrow> (\<forall>obj. field_of data ''user'' \<noteq> JObj obj)"
  shows "map (column k) (tasks (snd (task_update n data st))) = map (column k) (tasks st)"
proof (cases "find (\<lambda>x. t_id x = i) (tasks st)")
  case None
  with assms(2) show ?thesis by (simp add: task_update_def logged_def)
next
  case (Some t)
  show ?thesis
  proof (cases "resolve_objects (rules st) (\<lambda>k. column k t) data")
    case None
    with Some assms(2) show ?thesis by (simp add: task_update_def logged_def)
  next
    case plain: (Some plain)
    show ?thesis
    proof (cases "set_task_fields (rules st) plain t")
      case (Inl e)
      with Some plain assms(2) show ?thesis by (simp add: task_update_def logged_def)
    next
      case (Inr t1)
      have p: "v = JUndefined \<or> v = column k t \<and> k \<noteq> ''id'' \<and> k \<noteq> ''userId''"
        if "(k, v) \<in> set plain" for v
      proof -
        from resolve_objects_entries [OF plain that]
        show ?thesis
        proof
          assume "(k, v) \<in> set data"
          with assms(1) [OF Some] show ?thesis by simp
        next
          assume "\<exists>obj. (k, JObj obj) \<in> set data"
          then obtain obj where "(k, JObj obj) \<in> set data" by blast
          with assms(1) [OF Some] have "JObj obj = JUndefined \<or> JObj obj = column k t" by blast
          with column_not_object [of k t obj] show ?thesis by auto
        qed
      qed
      have c1: "column k t1 = column k t"
        by (rule set_task_fields_frame [OF Inr]) (use p in auto)
      show ?thesis
      proof (cases "write_relation (rules st) data (users st) t1")
        case (Inl e)
        with Some plain Inr assms(2) show ?thesis by (simp add: task_update_def logged_def)
      next
        case rel: (Inr res)
        obtain t2 us where res: "res = (t2, us)" by (cases res)
        have "column k t2 = column k t1"
          using rel res assms(4) by (simp add: write_relation_frame)
        with c1 assms(3) have "column k (stamp plain (clock st) t2) = column k t"
          by (simp add: stamp_frame)
        from update_row_frame [OF Some this] Some plain Inr rel res assms(2) show ?thesis
          by (simp add: task_update_def logged_def)
      qed
    qed
  qed
qed

lemma task_findUnique_found:
  "task_findUnique n st = (Inr (Some t), st1) \<Longrightarrow>
     \<exists>i. int_column (rules st1) n = Some i \<and> find (\<lambda>x. t_id x = i) (tasks st1) = Some t"
  by (auto simp: task_findUnique_def logged_def split: if_splits option.splits)

lemma task_findUnique_tasks:
  "tasks (snd (task_findUnique n st)) = tasks st"
  by (auto simp: task_findUnique_def logged_def split: if_splits option.splits)

lemma absent_field:
  assumes "k \<notin> fst ` set obj"
  shows "field_of obj k = JUndefined"
proof -
  have "map_of obj k = None"
    using assms by (simp add: map_of_eq_None_iff)
  then show ?thesis by (simp add: field_of_def)
qed

lemma updateTask_p005_frame:
  assumes "k \<notin> fst ` set (req_body req)" and "k \<noteq> ''updatedAt''"
    and "k = ''userId'' \<longrightarrow> ''user'' \<notin> fst ` set (req_body req)"
  shows "map (column k) (tasks (snd (updateTask_p005 N req st))) = map (column k) (tasks st)"
proof (cases "task_findUnique (Number_of N (map_of (req_params req) ''id'')) st")
  case (Pair res st1)
  have t1: "tasks st1 = tasks st"
    using task_findUnique_tasks [of "Number_of N (map_of (req_params req) ''id'')" st] Pair by simp
  show ?thesis
  proof (cases res)
    case (Inl e)
    with Pair t1 show ?thesis by (simp add: updateTask_p005_def)
  next
    case (Inr found)
    show ?thesis
    proof (cases found)
      case None
      with Pair Inr t1 show ?thesis by (simp add: updateTask_p005_def)
    next
      case (Some t)
      with Pair Inr obtain i where
        i: "int_column (rules st1) (Number_of N (map_of (req_params req) ''id'')) = Some i"
        using task_findUnique_found by blast
      have u: "k = ''userId'' \<longrightarrow> (\<forall>obj. field_of (req_body req) ''user'' \<noteq> JObj obj)"
        using assms(3) by (simp add: absent_field)
      have "map (column k)
              (tasks (snd (task_update (Number_of N (map_of (req_params req) ''id''))
                             (req_body req) st1)))
            = map (column k) (tasks st1)"
        by (rule task_update_frame [OF _ i assms(2) u]) (use assms(1) in force)
      moreover have "snd (updateTask_p005 N req st) =
          snd (task_update (Number_of N (map_of (req_params req) ''id'')) (req_body req) st1)"
        unfolding updateTask_p005_def Let_def Pair Inr Some
        by (simp split: prod.splits sum.splits)
      ultimately show ?thesis using t1 by simp
    qed
  qed
qed

lemma updateTask_p006_frame:
  assumes "field_of (req_body req) k = JUndefined" and "k \<noteq> ''updatedAt''"
  shows "map (column k) (tasks (snd (updateTask_p006 N DV req st))) = map (column k) (tasks st)"
proof (cases "task_findUnique (Number_of N (map_of (req_params req) ''id'')) st")
  case (Pair res st1)
  have t1: "tasks st1 = tasks st"
    using task_findUnique_tasks [of "Number_of N (map_of (req_params req) ''id'')" st] Pair by simp
  show ?thesis
  proof (cases res)
    case (Inl e)
    with Pair t1 show ?thesis by (simp add: updateTask_p006_def)
  next
    case (Inr found)
    show ?thesis
    proof (cases found)
      case None
      with Pair Inr t1 show ?thesis by (simp add: updateTask_p006_def)
    next
      case (Some t)
      with Pair Inr obtain i where
        i: "int_column (rules st1) (Number_of N (map_of (req_params req) ''id'')) = Some i"
        and f: "find (\<lambda>x. t_id x = i) (tasks st1) = Some t"
        using task_findUnique_found by blast
      let ?data = "[(''title'', js_or (field_of (req_body req) ''title'') (column ''title'' t)),
                    (''description'',
                       js_or (field_of (req_body req) ''description'') (column ''description'' t)),
                    (''dueDate'', if truthy (field_of (req_body req) ''dueDate'')
                                  then JDate (DV (field_of (req_body req) ''dueDate''))
                                  else column ''dueDate'' t),
                    (''status'', js_or (field_of (req_body req) ''status'') (column ''status'' t)),
                    (''recurring'',
                       js_or (field_of (req_body req) ''recurring'') (column ''recurring'' t)),
                    (''priority'',
                       js_or (field_of (req_body req) ''priority'') (column ''priority'' t))]"
      have u: "k = ''userId'' \<longrightarrow> (\<forall>obj. field_of ?data ''user'' \<noteq> JObj obj)"
        by (simp add: field_of_def)
      have "map (column k)
              (tasks (snd (task_update (Number_of N (map_of (req_params req) ''id'')) ?data st1)))
            = map (column k) (tasks st1)"
      proof (rule task_update_frame [OF _ i assms(2) u])
        fix t' v assume "find (\<lambda>x. t_id x = i) (tasks st1) = Some t'" and "(k, v) \<in> set ?data"
        with f assms(1)
        show "v = JUndefined \<or> v = column k t' \<and> k \<noteq> ''id'' \<and> k \<noteq> ''userId''"
          by (auto simp: js_or_def)
      qed
      moreover have "snd (updateTask_p006 N DV req st) =
          snd (task_update (Number_of N (map_of (req_params req) ''id'')) ?data st1)"
        unfolding updateTask_p006_def Let_def Pair Inr Some
        by (simp split: prod.splits sum.splits)
      ultimately show ?thesis using t1 by simp
    qed
  qed
qed

text \<open>The evaluation of an update of the status alone, by either handler.\<close>

lemma updateTask_p006_status_only:
  "tasks (snd (updateTask_p006 js_Number sample_DateValue
                 (update_request ''7'' [(''status'', JStr ''done'')]) store0)) =
     [task7\<lparr>t_status := ''done'', t_updatedAt := 2000\<rparr>]"
  by (simp add: updateTask_p006_def update_request_def Number_of_def js_Number_7
        task_findUnique_def field_of_def js_or_def column_def task_update_def
        set_task_field_def write_relation_def stamp_def logged_def store0_def sample_rules_def
        int32_column_7 task7_def alice_def root_user_def)

lemma updateTask_p005_status_only:
  "tasks (snd (updateTask_p005 js_Number
                 (update_request ''7'' [(''status'', JStr ''done'')]) store0)) =
     [task7\<lparr>t_status := ''done'', t_updatedAt := 2000\<rparr>]"
  by (simp add: updateTask_p005_def update_request_def Number_of_def js_Number_7
        task_findUnique_def field_of_def task_update_def
        set_task_field_def write_relation_def stamp_def logged_def store0_def sample_rules_def
        int32_column_7 task7_def alice_def root_user_def)

text \<open>
  In part_005 the body goes to the store as it is, and the store takes the relation
  \<open>user\<close> beside the columns: with the rules of the examples, connecting the task to user 2
  changes the column \<open>userId\<close>, which the body does not name.
\<close>

lemma updateTask_p005_relation_changes_owner:
  "''userId'' \<notin> fst ` set (req_body (update_request ''7''
       [(''user'', JObj [(''connect'', JObj [(''id'', JNum (Fin 2))])])])) \<and>
   map (column ''userId'') (tasks store0) = [JNum (Fin 1)] \<and>
   map (column ''userId'')
     (tasks (snd (updateTask_p005 js_Number
                    (update_request ''7''
                       [(''user'', JObj [(''connect'', JObj [(''id'', JNum (Fin 2))])])])
                    store0))) = [JNum (Fin 2)]"
proof -
  have "int32_column (Fin 2) = Some 2"
    using int32_column_int [of 2] by simp
  then show ?thesis
    by (simp add: updateTask_p005_def update_request_def Number_of_def js_Number_7
          task_findUnique_def field_of_def task_update_def column_def
          set_task_field_def write_relation_def connect_by_id_def stamp_def logged_def
          store0_def sample_rules_def int32_column_7 task7_def alice_def root_user_def)
qed

text \<open>
  C9, as the claim states it, fails for the column \<open>updatedAt\<close>, which the schema marks
  \<open>@updatedAt\<close>: a body with the status alone does not name it, and the update moves it
  from 1000 to the time of the update, 2000.
\<close>

theorem updateTask_updatedAt_counterexample:
  "''updatedAt'' \<notin> fst ` set (req_body (update_request ''7'' [(''status'', JStr ''done'')])) \<and>
   map (column ''updatedAt'') (tasks store0) = [JDate (Some 1000)] \<and>
   map (column ''updatedAt'')
     (tasks (snd (updateTask_p006 js_Number sample_DateValue
                    (update_request ''7'' [(''status'', JStr ''done'')]) store0))) =
     [JDate (Some 2000)] \<and>
   map (column ''updatedAt'')
     (tasks (snd (updateTask_p005 js_Number
                    (update_request ''7'' [(''status'', JStr ''done'')]) store0))) =
     [JDate (Some 2000)]"
  by (simp add: updateTask_p006_status_only updateTask_p005_status_only)
     (simp add: update_request_def store0_def task7_def column_def)

text \<open>
  C9, amended. A column of the task other than \<open>updatedAt\<close> whose key is absent from the
  body of \<open>PUT /api/tasks/:id\<close> has, in every stored task, the value it had before,
  whatever the request does otherwise (update, 404 or 500): in \<open>updateTask\<close> of part_006
  always, and in \<open>updateTask\<close> of part_005 provided that, for the column \<open>userId\<close>, the
  body does not name the relation \<open>user\<close> either.
\<close>

theorem updateTask_keeps_absent_columns:
  assumes "k \<notin> fst ` set (req_body req)" and "k \<noteq> ''updatedAt''"
  shows "map (column k) (tasks (snd (updateTask_p006 N DV req st))) = map (column k) (tasks st) \<and>
         ((k = ''userId'' \<longrightarrow> ''user'' \<notin> fst ` set (req_body req)) \<longrightarrow>
            map (column k) (tasks (snd (updateTask_p005 N req st))) = map (column k) (tasks st))"
  using assms
  by (simp add: updateTask_p006_frame updateTask_p005_frame absent_field)

theorem updateTask_keeps_absent_columns_witness:
  "tasks (snd (updateTask_p006 js_Number sample_DateValue
                 (update_request ''7'' [(''status'', JStr ''done'')]) store0)) =
     [task7\<lparr>t_status := ''done'', t_updatedAt := 2000\<rparr>] \<and>
   map (column ''title'')
     (tasks (snd (updateTask_p006 js_Number sample_DateValue
                    (update_request ''7'' [(''status'', JStr ''done'')]) store0))) =
     [JStr ''T''] \<and>
   map (column ''description'')
     (tasks (snd (updateTask_p006 js_Number sample_DateValue
                    (update_request ''7'' [(''status'', JStr ''done'')]) store0))) =
     [JStr ''D''] \<and>
   map (column ''priority'')
     (tasks (snd (updateTask_p005 js_Number
                    (update_request ''7'' [(''status'', JStr ''done'')]) store0))) =
     [JStr ''low''] \<and>
   map (column ''userId'')
     (tasks (snd (updateTask_p005 js_Number
                    (update_request ''7'' [(''status'', JStr ''done'')]) store0))) =
     [JNum (Fin 1)]"
proof -
  have a: "''title'' \<notin> fst ` set (req_body (update_request ''7'' [(''status'', JStr ''done'')]))"
          "''description'' \<notin> fst ` set (req_body (update_request ''7'' [(''status'', JStr ''done'')]))"
          "''priority'' \<notin> fst ` set (req_body (update_request ''7'' [(''status'', JStr ''done'')]))"
          "''userId'' \<notin> fst ` set (req_body (update_request ''7'' [(''status'', JStr ''done'')]))"
          "''user'' \<notin> fst ` set (req_body (update_request ''7'' [(''status'', JStr ''done'')]))"
    by (simp_all add: update_request_def)
  have n: "''title'' \<noteq> ''updatedAt''" "''description'' \<noteq> ''updatedAt''"
          "''priority'' \<noteq> ''updatedAt''" "''userId'' \<noteq> ''updatedAt''"
    by simp_all
  have c: "map (column ''title'') (tasks store0) = [JStr ''T'']"
          "map (column ''description'') (tasks store0) = [JStr ''D'']"
          "map (column ''priority'') (tasks store0) = [JStr ''low'']"
          "map (column ''userId'') (tasks store0) = [JNum (Fin 1)]"
    by (simp_all add: store0_def task7_def column_def)
  show ?thesis
    using updateTask_keeps_absent_columns [OF a(1) n(1), of js_Number sample_DateValue store0]
          updateTask_keeps_absent_columns [OF a(2) n(2), of js_Number sample_DateValue store0]
          updateTask_keeps_absent_columns [OF a(3) n(3), of js_Number sample_DateValue store0]
          updateTask_keeps_absent_columns [OF a(4) n(4), of js_Number sample_DateValue store0]
          a(5) c updateTask_p006_status_only
    by simp
qed

section \<open>Token round trip\<close>

text \<open>
  C8. For every user id and role, a token issued at time \<open>now\<close> verifies, at any time
  before \<open>now\<close> plus one hour, to exactly the two claims it was issued for; at that moment
  and at any later time verification fails with Expired.
\<close>

theorem verify_issue_round_trip:
  "(t < now + 3600 \<longrightarrow>
      verify mac secret t (issue mac secret now u r) = Inr \<lparr>d_userId = u, d_role = r\<rparr>) \<and>
   (now + 3600 \<le> t \<longrightarrow>
      verify mac secret t (issue mac secret now u r) = Inl Expired)"
  by (simp add: verify_def issue_def expiry_offset_def)

theorem verify_issue_round_trip_witness:
  "verify sample_mac ''s3cret'' 4599 (issue sample_mac ''s3cret'' 1000 2 ''ADMIN'') =
     Inr \<lparr>d_userId = 2, d_role = ''ADMIN''\<rparr> \<and>
   verify sample_mac ''s3cret'' 4600 (issue sample_mac ''s3cret'' 1000 2 ''ADMIN'') = Inl Expired"
  using verify_issue_round_trip [of 4599 1000 sample_mac "''s3cret''" 2 "''ADMIN''"]
        verify_issue_round_trip [of 4600 1000 sample_mac "''s3cret''" 2 "''ADMIN''"]
  by simp

end
